theory Spec2Isabelle
  imports Complex_Main "HOL-Library.AList"
begin

section \<open>Federation schema composition (src/lib/federation.js)\<close>

text \<open>
  The source file holds two listings of the module, one after the other: the first on
  lines 1-493, the second on lines 494-875. Both export \<open>buildFederationSchema\<close> and
  \<open>extendFederationSchema\<close>. A function that the two listings share word for word is
  embedded once; a function that differs is embedded twice, with the suffix \<open>1\<close> for
  the first listing and \<open>2\<close> for the second.
\<close>

subsection \<open>Values that are thrown\<close>

text \<open>
  \<open>validateSDL\<close> reports error objects of the schema engine; the module throws them, a
  plain \<open>Error\<close> carrying a list of them, and the errors of the \<open>_entities\<close> resolver.
  A \<open>TypeError\<close> is what the language itself throws (reading a property of
  \<open>undefined\<close>, \<open>'then' in 5\<close>, a refused \<open>Object.defineProperty\<close>).
\<close>

datatype graphQLError = GraphQLError (message: string)

datatype jsnumber = NaN | Infinity bool | Finite rat

datatype jsval =
    JUndefined
  | JNull
  | JBoolean bool
  | JNumber jsnumber
  | JString string
  | JBigInt int
  | JSymbol nat
  | JObject nat

datatype thrown =
    TypeError
  | Thrown graphQLError
  | SchemaIssues "graphQLError list"
  | MER_ERR_GQL_GATEWAY_INVALID_SCHEMA jsval
  | EntityTypeNotFound jsval
  | EngineError string
  | UserError jsval

subsection \<open>The parsed document\<close>

datatype kind =
    OPERATION_DEFINITION
  | FRAGMENT_DEFINITION
  | SCHEMA_DEFINITION
  | SCALAR_TYPE_DEFINITION
  | OBJECT_TYPE_DEFINITION
  | INTERFACE_TYPE_DEFINITION
  | UNION_TYPE_DEFINITION
  | ENUM_TYPE_DEFINITION
  | INPUT_OBJECT_TYPE_DEFINITION
  | DIRECTIVE_DEFINITION
  | SCHEMA_EXTENSION
  | SCALAR_TYPE_EXTENSION
  | OBJECT_TYPE_EXTENSION
  | INTERFACE_TYPE_EXTENSION
  | UNION_TYPE_EXTENSION
  | ENUM_TYPE_EXTENSION
  | INPUT_OBJECT_TYPE_EXTENSION

datatype directiveNode =
  DirectiveNode (directiveName: string) (directiveArguments: "(string \<times> string) list")

datatype fieldDefinition =
  FieldDefinition (fieldName: string) (fieldType: string) (fieldDirectives: "directiveNode list")

text \<open>
  A top-level node of the document. \<open>kind\<close> is \<open>None\<close> once the module has stored
  \<open>undefined\<close> there; \<open>name\<close> is \<open>None\<close> for a node that has no \<open>name\<close> property (a schema
  definition, an anonymous operation); \<open>directives\<close> and \<open>fields\<close> are \<open>None\<close> for the node
  kinds that do not have the property (a union, an enum and a scalar have no \<open>fields\<close>);
  \<open>unionTypes\<close> is the \<open>types\<close> property of a union, the names of its members.
  \<open>otherProps\<close> names the further properties of the node that hold a truthy value
  (\<open>loc\<close>, \<open>interfaces\<close>, \<open>values\<close>, a description).
\<close>

record definitionNode =
  kind :: "kind option"
  name :: "string option"
  directives :: "directiveNode list option"
  fields' :: "fieldDefinition list option"
  unionTypes :: "string list option"
  otherProps :: "string list"

definition extensionKindToDefinitionKind :: "kind option \<Rightarrow> kind option" where
  "extensionKindToDefinitionKind k =
     (case k of
        Some SCALAR_TYPE_EXTENSION \<Rightarrow> Some SCALAR_TYPE_DEFINITION
      | Some OBJECT_TYPE_EXTENSION \<Rightarrow> Some OBJECT_TYPE_DEFINITION
      | Some INTERFACE_TYPE_EXTENSION \<Rightarrow> Some INTERFACE_TYPE_DEFINITION
      | Some UNION_TYPE_EXTENSION \<Rightarrow> Some UNION_TYPE_DEFINITION
      | Some ENUM_TYPE_EXTENSION \<Rightarrow> Some ENUM_TYPE_DEFINITION
      | Some INPUT_OBJECT_TYPE_EXTENSION \<Rightarrow> Some INPUT_OBJECT_TYPE_DEFINITION
      | _ \<Rightarrow> None)"

definition definitionKindToExtensionKind :: "kind option \<Rightarrow> kind option" where
  "definitionKindToExtensionKind k =
     (case k of
        Some SCALAR_TYPE_DEFINITION \<Rightarrow> Some SCALAR_TYPE_EXTENSION
      | Some OBJECT_TYPE_DEFINITION \<Rightarrow> Some OBJECT_TYPE_EXTENSION
      | Some INTERFACE_TYPE_DEFINITION \<Rightarrow> Some INTERFACE_TYPE_EXTENSION
      | Some UNION_TYPE_DEFINITION \<Rightarrow> Some UNION_TYPE_EXTENSION
      | Some ENUM_TYPE_DEFINITION \<Rightarrow> Some ENUM_TYPE_EXTENSION
      | Some INPUT_OBJECT_TYPE_DEFINITION \<Rightarrow> Some INPUT_OBJECT_TYPE_EXTENSION
      | _ \<Rightarrow> None)"

definition isTypeDefinitionNode :: "definitionNode \<Rightarrow> bool" where
  "isTypeDefinitionNode node \<longleftrightarrow>
     kind node \<in> {Some SCALAR_TYPE_DEFINITION, Some OBJECT_TYPE_DEFINITION,
       Some INTERFACE_TYPE_DEFINITION, Some UNION_TYPE_DEFINITION, Some ENUM_TYPE_DEFINITION,
       Some INPUT_OBJECT_TYPE_DEFINITION}"

definition isTypeExtensionNode :: "definitionNode \<Rightarrow> bool" where
  "isTypeExtensionNode node \<longleftrightarrow>
     kind node \<in> {Some SCALAR_TYPE_EXTENSION, Some OBJECT_TYPE_EXTENSION,
       Some INTERFACE_TYPE_EXTENSION, Some UNION_TYPE_EXTENSION, Some ENUM_TYPE_EXTENSION,
       Some INPUT_OBJECT_TYPE_EXTENSION}"

subsection \<open>Plain objects used as dictionaries\<close>

text \<open>
  \<open>definitionsMap\<close> and \<open>extensionsMap\<close> are object literals \<open>{}\<close> indexed by type name.
  Their own properties keep insertion order (a type name never looks like an array
  index). A read \<open>m[k]\<close> also sees what the object inherits: the properties of
  \<open>Object.prototype\<close>, all of them truthy. The assignment \<open>m['__proto__'] = v\<close> runs the
  setter that \<open>Object.prototype\<close> provides: it creates no own property and makes \<open>v\<close> the
  prototype of \<open>m\<close>, so that later reads also see the properties of \<open>v\<close>.
\<close>

record 'v plainObject =
  ownProps :: "(string \<times> 'v) list"
  protoNode :: "'v option"

definition emptyObject :: "'v plainObject" where
  "emptyObject = \<lparr>ownProps = [], protoNode = None\<rparr>"

definition setProp :: "string \<Rightarrow> 'v \<Rightarrow> 'v plainObject \<Rightarrow> 'v plainObject" where
  "setProp k v m =
     (if k = ''__proto__'' then m\<lparr>protoNode := Some v\<rparr>
      else m\<lparr>ownProps := AList.update k v (ownProps m)\<rparr>)"

definition objectPrototypeProps :: "string list" where
  "objectPrototypeProps =
     [''constructor'', ''__defineGetter__'', ''__defineSetter__'', ''hasOwnProperty'',
      ''__lookupGetter__'', ''__lookupSetter__'', ''isPrototypeOf'', ''propertyIsEnumerable'',
      ''toString'', ''valueOf'', ''__proto__'', ''toLocaleString'']"

definition truthyProps :: "definitionNode \<Rightarrow> string list" where
  "truthyProps node =
     (if kind node = None then [] else [''kind'']) @
     (if name node = None then [] else [''name'']) @
     (if directives node = None then [] else [''directives'']) @
     (if fields' node = None then [] else [''fields'']) @
     (if unionTypes node = None then [] else [''types'']) @
     otherProps node"

text \<open>\<open>m[k]\<close> read for its truth value, as in \<open>!definitionsMap[extensionTypeName]\<close>.\<close>

definition truthyAt :: "definitionNode plainObject \<Rightarrow> string \<Rightarrow> bool" where
  "truthyAt m k \<longleftrightarrow>
     k \<in> set (map fst (ownProps m)) \<or> k \<in> set objectPrototypeProps \<or>
     (case protoNode m of None \<Rightarrow> False | Some node \<Rightarrow> k \<in> set (truthyProps node))"

subsection \<open>removeExternalFields, hasExtendsDirective (lines 125-137 and 575-587)\<close>

definition isExternal :: "fieldDefinition \<Rightarrow> bool" where
  "isExternal fieldDefinition \<longleftrightarrow>
     (\<exists>directive \<in> set (fieldDirectives fieldDefinition). directiveName directive = ''external'')"

text \<open>\<open>typeDefinition.fields.filter(...)\<close> throws when the node has no \<open>fields\<close>.\<close>

definition removeExternalFields :: "definitionNode \<Rightarrow> thrown + definitionNode" where
  "removeExternalFields typeDefinition =
     (case fields' typeDefinition of
        None \<Rightarrow> Inl TypeError
      | Some fs \<Rightarrow>
          Inr (typeDefinition\<lparr>fields' := Some (filter (\<lambda>fieldDefinition. \<not> isExternal fieldDefinition) fs)\<rparr>))"

definition hasExtendsDirective :: "definitionNode \<Rightarrow> bool" where
  "hasExtendsDirective definition =
     (case directives definition of
        None \<Rightarrow> False
      | Some ds \<Rightarrow> (\<exists>directive \<in> set ds. directiveName directive = ''extends''))"

subsection \<open>getStubTypes (lines 139-192 and 589-631)\<close>

record stubState =
  definitionsMap :: "definitionNode plainObject"
  extensionsMap :: "definitionNode plainObject"
  extensionsList :: "definitionNode list"
  directiveDefinitions :: "definitionNode list"

record stubTypes =
  typeStubs :: "definitionNode list"
  extensions :: "definitionNode list"
  definitions :: "definitionNode list"

text \<open>The object literal \<open>{ kind, name: definition.name }\<close>.\<close>

definition kindAndName :: "kind option \<Rightarrow> string option \<Rightarrow> definitionNode" where
  "kindAndName k n =
     \<lparr>kind = k, name = n, directives = None, fields' = None, unionTypes = None, otherProps = []\<rparr>"

definition rootNames :: "string list" where
  "rootNames = [''Query'', ''Mutation'', ''Subscription'']"

text \<open>
  The \<open>if\<close> / \<open>else if\<close> chain of the loop body (lines 164-179 and 599-612, the same in
  both listings). The node is rewritten in place, so the node that is collected carries
  the rewritten \<open>kind\<close>.
\<close>

definition classify :: "bool \<Rightarrow> string \<Rightarrow> bool \<Rightarrow> definitionNode \<Rightarrow> stubState \<Rightarrow> thrown + stubState" where
  "classify isGateway typeName isTypeExtensionByDirective definition st =
     (if isTypeDefinitionNode definition \<and> \<not> isTypeExtensionByDirective then
        Inr (st\<lparr>definitionsMap := setProp typeName definition (definitionsMap st)\<rparr>)
      else if isTypeExtensionNode definition \<or>
              (isTypeDefinitionNode definition \<and> isTypeExtensionByDirective) then
        (let st1 = st\<lparr>extensionsMap :=
                   setProp typeName
                     (kindAndName
                        (if isTypeExtensionByDirective then kind definition
                         else extensionKindToDefinitionKind (kind definition))
                        (name definition))
                     (extensionsMap st)\<rparr>;
             definition1 =
               (if isTypeExtensionByDirective
                then definition\<lparr>kind := definitionKindToExtensionKind (kind definition)\<rparr>
                else definition)
         in if isGateway then
              (case removeExternalFields definition1 of
                 Inl e \<Rightarrow> Inl e
               | Inr d \<Rightarrow> Inr (st1\<lparr>extensionsList := extensionsList st1 @ [d]\<rparr>))
            else Inr (st1\<lparr>extensionsList := extensionsList st1 @ [definition1]\<rparr>))
      else if kind definition = Some DIRECTIVE_DEFINITION then
        Inr (st\<lparr>directiveDefinitions := directiveDefinitions st @ [definition]\<rparr>)
      else Inr st)"

text \<open>
  One turn of the loop of the first listing (lines 145-180): a root type name is forced
  to an extension in gateway mode before the chain runs. \<open>definition.name.value\<close> throws
  when the node has no name.
\<close>

definition loopBody1 :: "bool \<Rightarrow> definitionNode \<Rightarrow> stubState \<Rightarrow> thrown + stubState" where
  "loopBody1 isGateway definition st =
     (case name definition of
        None \<Rightarrow> Inl TypeError
      | Some typeName \<Rightarrow>
          (let isTypeExtensionByDirective = hasExtendsDirective definition in
           if isGateway \<and> typeName \<in> set rootNames then
             (let k = definitionKindToExtensionKind (kind definition)
              in classify isGateway typeName isTypeExtensionByDirective
                   (definition\<lparr>kind := k\<rparr>)
                   (st\<lparr>extensionsMap :=
                         setProp typeName (kindAndName k (name definition)) (extensionsMap st)\<rparr>))
           else classify isGateway typeName isTypeExtensionByDirective definition st))"

text \<open>One turn of the loop of the second listing (lines 595-613).\<close>

definition loopBody2 :: "bool \<Rightarrow> definitionNode \<Rightarrow> stubState \<Rightarrow> thrown + stubState" where
  "loopBody2 isGateway definition st =
     (case name definition of
        None \<Rightarrow> Inl TypeError
      | Some typeName \<Rightarrow>
          classify isGateway typeName (hasExtendsDirective definition) definition st)"

fun forOf :: "('a \<Rightarrow> 's \<Rightarrow> thrown + 's) \<Rightarrow> 'a list \<Rightarrow> 's \<Rightarrow> thrown + 's" where
  "forOf body [] st = Inr st"
| "forOf body (x # xs) st = (case body x st of Inl e \<Rightarrow> Inl e | Inr st' \<Rightarrow> forOf body xs st')"

definition initialState :: stubState where
  "initialState =
     \<lparr>definitionsMap = emptyObject, extensionsMap = emptyObject, extensionsList = [],
      directiveDefinitions = []\<rparr>"

text \<open>
  The returned object. \<open>Object.keys(extensionsMap).filter(...).map(n => extensionsMap[n])\<close>
  walks the own properties in order; each key is held once, so the value read back is
  the value stored beside the key.
\<close>

definition stubsOf1 :: "stubState \<Rightarrow> stubTypes" where
  "stubsOf1 st =
     \<lparr>typeStubs =
        map snd (filter (\<lambda>(extensionTypeName, _). \<not> truthyAt (definitionsMap st) extensionTypeName)
                   (ownProps (extensionsMap st))),
      extensions = extensionsList st,
      definitions = directiveDefinitions st @ map snd (ownProps (definitionsMap st))\<rparr>"

definition stubsOf2 :: "stubState \<Rightarrow> stubTypes" where
  "stubsOf2 st =
     \<lparr>typeStubs =
        map snd (filter (\<lambda>(extensionTypeName, _).
                           \<not> truthyAt (definitionsMap st) extensionTypeName \<and>
                           extensionTypeName \<notin> set rootNames)
                   (ownProps (extensionsMap st))),
      extensions = extensionsList st,
      definitions = directiveDefinitions st @ map snd (ownProps (definitionsMap st))\<rparr>"

definition getStubTypes1 :: "definitionNode list \<Rightarrow> bool \<Rightarrow> thrown + stubTypes" where
  "getStubTypes1 schemaDefinitions isGateway =
     (case forOf (loopBody1 isGateway) schemaDefinitions initialState of
        Inl e \<Rightarrow> Inl e
      | Inr st \<Rightarrow> Inr (stubsOf1 st))"

definition getStubTypes2 :: "definitionNode list \<Rightarrow> bool \<Rightarrow> thrown + stubTypes" where
  "getStubTypes2 schemaDefinitions isGateway =
     (case forOf (loopBody2 isGateway) schemaDefinitions initialState of
        Inl e \<Rightarrow> Inl e
      | Inr st \<Rightarrow> Inr (stubsOf2 st))"

subsection \<open>Values and objects at resolve time\<close>

text \<open>
  A number is falsy when it is \<open>NaN\<close> or zero; \<open>Finite\<close> holds the value of a finite number
  (the two zeros are one value here, both falsy). An object is a reference into the heap.
\<close>

fun truthy :: "jsval \<Rightarrow> bool" where
  "truthy JUndefined = False"
| "truthy JNull = False"
| "truthy (JBoolean b) = b"
| "truthy (JNumber n) = (n \<noteq> NaN \<and> n \<noteq> Finite 0)"
| "truthy (JString s) = (s \<noteq> [])"
| "truthy (JBigInt i) = (i \<noteq> 0)"
| "truthy (JSymbol _) = True"
| "truthy (JObject _) = True"

fun isPrimitive :: "jsval \<Rightarrow> bool" where
  "isPrimitive (JObject _) = False"
| "isPrimitive _ = True"

text \<open>
  An own property with its attributes. The getter of an accessor property is taken to
  be pure: \<open>getterResult\<close> is what a read returns.
\<close>

datatype property =
    DataProperty (propValue: jsval) (writable: bool) (enumerable: bool) (configurable: bool)
  | AccessorProperty (getterResult: jsval) (enumerable: bool) (configurable: bool)

text \<open>
  An ordinary object: its own properties, whether it is extensible, whether it can be
  called (\<open>typeof\<close> is then \<open>'function'\<close>), and the properties a read finds on its
  prototype chain, which the module never changes.
\<close>

record jsobject =
  props :: "string \<rightharpoonup> property"
  extensible :: bool
  callable :: bool
  inheritedProps :: "string \<rightharpoonup> jsval"

type_synonym heap = "nat \<Rightarrow> jsobject"

definition typeofObject :: "heap \<Rightarrow> jsval \<Rightarrow> bool" where
  "typeofObject h v = (case v of JNull \<Rightarrow> True | JObject r \<Rightarrow> \<not> callable (h r) | _ \<Rightarrow> False)"

definition typeofFunction :: "heap \<Rightarrow> jsval \<Rightarrow> bool" where
  "typeofFunction h v = (case v of JObject r \<Rightarrow> callable (h r) | _ \<Rightarrow> False)"

text \<open>
  \<open>v[k]\<close> and \<open>const { k } = v\<close>: a \<open>TypeError\<close> on \<open>undefined\<close> and \<open>null\<close>; on another
  primitive the read goes to the wrapper's prototype, which holds neither of the names
  the module reads (\<open>__typename\<close>, \<open>then\<close>).
\<close>

definition getProperty :: "heap \<Rightarrow> jsval \<Rightarrow> string \<Rightarrow> thrown + jsval" where
  "getProperty h v k =
     (case v of
        JUndefined \<Rightarrow> Inl TypeError
      | JNull \<Rightarrow> Inl TypeError
      | JObject r \<Rightarrow>
          Inr (case props (h r) k of
                 Some (DataProperty x _ _ _) \<Rightarrow> x
               | Some (AccessorProperty x _ _) \<Rightarrow> x
               | None \<Rightarrow> (case inheritedProps (h r) k of Some x \<Rightarrow> x | None \<Rightarrow> JUndefined))
      | _ \<Rightarrow> Inr JUndefined)"

text \<open>\<open>k in v\<close>: a \<open>TypeError\<close> unless \<open>v\<close> is an object.\<close>

definition hasProperty :: "heap \<Rightarrow> string \<Rightarrow> jsval \<Rightarrow> thrown + bool" where
  "hasProperty h k v =
     (case v of
        JObject r \<Rightarrow> Inr (props (h r) k \<noteq> None \<or> inheritedProps (h r) k \<noteq> None)
      | _ \<Rightarrow> Inl TypeError)"

text \<open>
  \<open>Object.defineProperty(o, k, { value: v })\<close> on an ordinary object: the attributes the
  descriptor leaves out default to \<open>false\<close> for a new property and keep their value for
  a property that exists. \<open>None\<close> is the \<open>TypeError\<close> of a refused definition.
\<close>

definition defineValue :: "jsobject \<Rightarrow> string \<Rightarrow> jsval \<Rightarrow> jsobject option" where
  "defineValue ob k v =
     (case props ob k of
        None \<Rightarrow>
          if extensible ob
          then Some (ob\<lparr>props := (props ob)(k \<mapsto> DataProperty v False False False)\<rparr>)
          else None
      | Some (DataProperty cur w e c) \<Rightarrow>
          if \<not> c \<and> \<not> w then (if v = cur then Some ob else None)
          else Some (ob\<lparr>props := (props ob)(k \<mapsto> DataProperty v w e c)\<rparr>)
      | Some (AccessorProperty g e c) \<Rightarrow>
          if \<not> c then None
          else Some (ob\<lparr>props := (props ob)(k \<mapsto> DataProperty v False e c)\<rparr>))"

subsection \<open>addTypeNameToResult (lines 215-223 and 654-662)\<close>

definition addTypeNameToResult :: "jsval \<Rightarrow> jsval \<Rightarrow> heap \<Rightarrow> thrown + (jsval \<times> heap)" where
  "addTypeNameToResult result typename h =
     (if result \<noteq> JNull \<and> typeofObject h result then
        (case result of
           JObject r \<Rightarrow>
             (case defineValue (h r) ''__typename'' typename of
                None \<Rightarrow> Inl TypeError
              | Some ob \<Rightarrow> Inr (result, h(r := ob)))
         | _ \<Rightarrow> Inr (result, h))
      else Inr (result, h))"

subsection \<open>The resolver of \<open>_entities\<close> (lines 248-273 and 684-711)\<close>

text \<open>
  A reference resolver is the service's own callback: it reads and writes the heap,
  returns a value or throws. \<open>info.schema.getType\<close> is the engine's lookup, applied to
  whatever value the representation holds under \<open>__typename\<close>.
\<close>

type_synonym referenceResolver = "jsval \<Rightarrow> heap \<Rightarrow> thrown + (jsval \<times> heap)"

record runtimeType =
  isObjectType :: bool
  resolveReference :: "referenceResolver option"

text \<open>
  What the callback of \<open>representations.map\<close> returns for one representation: a value,
  or the value of the call \<open>result.then(x => addTypeNameToResult(x, __typename))\<close> on a
  thenable \<open>result\<close>, whose \<open>then\<close> is the thenable's own code.
\<close>

datatype entityResult =
    Immediate jsval
  | Deferred (thenable: jsval) (typenameTag: jsval)

definition resolveEntity ::
  "(jsval \<Rightarrow> thrown) \<Rightarrow> (jsval \<Rightarrow> runtimeType option) \<Rightarrow> jsval \<Rightarrow> heap \<Rightarrow>
     thrown + (entityResult \<times> heap)" where
  "resolveEntity unknownType schemaGetType reference h =
     (case getProperty h reference ''__typename'' of
        Inl e \<Rightarrow> Inl e
      | Inr typename \<Rightarrow>
          (case schemaGetType typename of
             None \<Rightarrow> Inl (unknownType typename)
           | Some type \<Rightarrow>
               if \<not> isObjectType type then Inl (unknownType typename)
               else
                 (case (case resolveReference type of
                          Some f \<Rightarrow> f reference h
                        | None \<Rightarrow> Inr (reference, h)) of
                    Inl e \<Rightarrow> Inl e
                  | Inr (result, h1) \<Rightarrow>
                      if \<not> truthy result then
                        map_sum id (\<lambda>(x, h2). (Immediate x, h2)) (addTypeNameToResult result typename h1)
                      else
                        (case hasProperty h1 ''then'' result of
                           Inl e \<Rightarrow> Inl e
                         | Inr found \<Rightarrow>
                             if \<not> found then
                               map_sum id (\<lambda>(x, h2). (Immediate x, h2))
                                 (addTypeNameToResult result typename h1)
                             else
                               (case getProperty h1 result ''then'' of
                                  Inl e \<Rightarrow> Inl e
                                | Inr thenValue \<Rightarrow>
                                    if typeofFunction h1 thenValue
                                    then Inr (Deferred result typename, h1)
                                    else map_sum id (\<lambda>(x, h2). (Immediate x, h2))
                                           (addTypeNameToResult result typename h1))))))"

fun arrayMap :: "('a \<Rightarrow> heap \<Rightarrow> thrown + ('b \<times> heap)) \<Rightarrow> 'a list \<Rightarrow> heap \<Rightarrow> thrown + ('b list \<times> heap)" where
  "arrayMap f [] h = Inr ([], h)"
| "arrayMap f (x # xs) h =
     (case f x h of
        Inl e \<Rightarrow> Inl e
      | Inr (y, h1) \<Rightarrow>
          (case arrayMap f xs h1 of
             Inl e \<Rightarrow> Inl e
           | Inr (ys, h2) \<Rightarrow> Inr (y # ys, h2)))"

text \<open>The first listing throws \<open>MER_ERR_GQL_GATEWAY_INVALID_SCHEMA(__typename)\<close>.\<close>

definition entitiesResolve1 ::
  "(jsval \<Rightarrow> runtimeType option) \<Rightarrow> jsval list \<Rightarrow> heap \<Rightarrow> thrown + (entityResult list \<times> heap)" where
  "entitiesResolve1 schemaGetType representations h =
     arrayMap (resolveEntity MER_ERR_GQL_GATEWAY_INVALID_SCHEMA schemaGetType) representations h"

text \<open>The second listing throws an \<open>Error\<close> whose message quotes \<open>__typename\<close>.\<close>

definition entitiesResolve2 ::
  "(jsval \<Rightarrow> runtimeType option) \<Rightarrow> jsval list \<Rightarrow> heap \<Rightarrow> thrown + (entityResult list \<times> heap)" where
  "entitiesResolve2 schemaGetType representations h =
     arrayMap (resolveEntity EntityTypeNotFound schemaGetType) representations h"

subsection \<open>The schema object and the schema engine\<close>

text \<open>
  The schema engine (the \<open>graphql\<close> package) and the composition rules are not part of
  the module. Of a schema object the module uses the type map, the three root types and
  the directives; of a type its name, whether it is an object type, its field map, its
  \<open>astNode\<close> and its \<open>extensionASTNodes\<close>. The built-in scalars and the introspection
  types, which the module never looks at, are left out of the type map. A root is held
  by the name of its type, which the type map holds.
\<close>

datatype typeKind = ScalarType | ObjectType | InterfaceType | UnionType | EnumType | InputObjectType

text \<open>
  The function stored under \<open>resolve\<close>: \<open>() => ({ sdl })\<close> with the SDL it closes over, or
  the \<open>_entities\<close> resolver of one of the listings. An SDL text is written as the
  document it parses to.
\<close>

datatype resolver = ServiceResolver "definitionNode list" | EntitiesResolver1 | EntitiesResolver2

record schemaField =
  fieldTypeRef :: "string option"
  resolve :: "resolver option"

record graphQLType =
  typeKind :: typeKind
  typeName :: string
  typeFields :: "(string \<times> schemaField) list"
  memberTypes :: "string list"
  astNode :: "definitionNode option"
  extensionASTNodes :: "definitionNode list option"

record schemaConfig =
  query :: "graphQLType option"
  mutation :: "graphQLType option"
  subscription :: "graphQLType option"
  types :: "graphQLType list"
  schemaDirectives :: "string list"

record schema =
  typeMap :: "(string \<times> graphQLType) list"
  queryType :: "string option"
  mutationType :: "string option"
  subscriptionType :: "string option"
  directiveNames :: "string list"

definition getType :: "schema \<Rightarrow> string \<Rightarrow> graphQLType option" where
  "getType s n = map_of (typeMap s) n"

definition getQueryType :: "schema \<Rightarrow> graphQLType option" where
  "getQueryType s = (case queryType s of None \<Rightarrow> None | Some n \<Rightarrow> getType s n)"

definition rootType :: "schema \<Rightarrow> string option \<Rightarrow> graphQLType option" where
  "rootType s r = (case r of None \<Rightarrow> None | Some n \<Rightarrow> getType s n)"

definition toConfig :: "schema \<Rightarrow> schemaConfig" where
  "toConfig s =
     \<lparr>query = rootType s (queryType s), mutation = rootType s (mutationType s),
      subscription = rootType s (subscriptionType s), types = map snd (typeMap s),
      schemaDirectives = directiveNames s\<rparr>"

text \<open>
  \<open>new GraphQLSchema(config)\<close> gathers the types of \<open>config.types\<close> and then the roots into
  the type map, and throws when two different types carry one name.
\<close>

definition collectType :: "graphQLType \<Rightarrow> (string \<times> graphQLType) list \<Rightarrow> thrown + (string \<times> graphQLType) list" where
  "collectType t m =
     (case map_of m (typeName t) of
        None \<Rightarrow> Inr (m @ [(typeName t, t)])
      | Some u \<Rightarrow>
          if u = t then Inr m
          else Inl (EngineError ''Schema must contain uniquely named types''))"

definition optionList :: "'a option \<Rightarrow> 'a list" where
  "optionList x = (case x of None \<Rightarrow> [] | Some y \<Rightarrow> [y])"

definition GraphQLSchema :: "schemaConfig \<Rightarrow> thrown + schema" where
  "GraphQLSchema config =
     (case forOf collectType
             (types config @ optionList (query config) @ optionList (mutation config) @
              optionList (subscription config)) [] of
        Inl e \<Rightarrow> Inl e
      | Inr m \<Rightarrow>
          Inr \<lparr>typeMap = m, queryType = map_option typeName (query config),
               mutationType = map_option typeName (mutation config),
               subscriptionType = map_option typeName (subscription config),
               directiveNames = schemaDirectives config\<rparr>)"

text \<open>\<open>new GraphQLSchema({ query: undefined })\<close>\<close>

definition emptySchema :: schema where
  "emptySchema =
     \<lparr>typeMap = [], queryType = None, mutationType = None, subscriptionType = None,
      directiveNames = []\<rparr>"

text \<open>\<open>new GraphQLObjectType({ name: 'Query', fields: {} })\<close>\<close>

definition emptyQuery :: graphQLType where
  "emptyQuery =
     \<lparr>typeKind = ObjectType, typeName = ''Query'', typeFields = [], memberTypes = [],
      astNode = None, extensionASTNodes = None\<rparr>"

datatype extendOptions = Validate | AssumeValid | AssumeValidSDL

text \<open>
  The engine as the module calls it: \<open>parse\<close> of the caller's SDL, \<open>extendSchema\<close> with
  its options, \<open>validateSDL\<close> with the composition rules of
  \<open>./federation/compositionRules\<close> already passed, and \<open>printSchema\<close>, whose text is
  written as the document it parses to.
\<close>

record engine =
  parse :: "string \<Rightarrow> thrown + definitionNode list"
  extendSchema :: "schema \<Rightarrow> definitionNode list \<Rightarrow> extendOptions \<Rightarrow> thrown + schema"
  validateSDL :: "definitionNode list \<Rightarrow> schema \<Rightarrow> graphQLError list"
  printSchema :: "schema \<Rightarrow> definitionNode list"

subsection \<open>The SDL constants (lines 51-67 and 534-555)\<close>

definition scalarDefinition :: "string \<Rightarrow> definitionNode" where
  "scalarDefinition n =
     \<lparr>kind = Some SCALAR_TYPE_DEFINITION, name = Some n, directives = Some [], fields' = None,
      unionTypes = None, otherProps = [''loc'']\<rparr>"

definition directiveDefinition :: "string \<Rightarrow> definitionNode" where
  "directiveDefinition n =
     \<lparr>kind = Some DIRECTIVE_DEFINITION, name = Some n, directives = None, fields' = None,
      unionTypes = None, otherProps = [''loc'', ''arguments'', ''locations'']\<rparr>"

definition objectNode :: "kind \<Rightarrow> string \<Rightarrow> fieldDefinition list \<Rightarrow> definitionNode" where
  "objectNode k n fs =
     \<lparr>kind = Some k, name = Some n, directives = Some [], fields' = Some fs,
      unionTypes = None, otherProps = [''loc'', ''interfaces'']\<rparr>"

definition BASE_FEDERATION_TYPES :: "definitionNode list" where
  "BASE_FEDERATION_TYPES =
     [scalarDefinition ''_Any'', scalarDefinition ''_FieldSet'',
      directiveDefinition ''external'', directiveDefinition ''requires'',
      directiveDefinition ''provides'', directiveDefinition ''key'',
      directiveDefinition ''extends'']"

definition FEDERATION_SCHEMA1 :: "definitionNode list" where
  "FEDERATION_SCHEMA1 =
     BASE_FEDERATION_TYPES @
     [objectNode OBJECT_TYPE_DEFINITION ''_Service'' [FieldDefinition ''sdl'' ''String'' []]]"

definition FEDERATION_SCHEMA2 :: "definitionNode list" where
  "FEDERATION_SCHEMA2 =
     BASE_FEDERATION_TYPES @
     [objectNode OBJECT_TYPE_DEFINITION ''_Service'' [FieldDefinition ''sdl'' ''String'' []],
      objectNode OBJECT_TYPE_EXTENSION ''Query'' [FieldDefinition ''_service'' ''_Service!'' []]]"

subsection \<open>gatherDirectives, typeIncludesDirective (lines 194-213 and 633-652)\<close>

definition gatherDirectives :: "graphQLType \<Rightarrow> directiveNode list" where
  "gatherDirectives type =
     concat (map (\<lambda>node. case directives node of None \<Rightarrow> [] | Some ds \<Rightarrow> ds)
               (case extensionASTNodes type of None \<Rightarrow> [] | Some nodes \<Rightarrow> nodes)) @
     (case astNode type of
        None \<Rightarrow> []
      | Some node \<Rightarrow> (case directives node of None \<Rightarrow> [] | Some ds \<Rightarrow> ds))"

definition typeIncludesDirective :: "graphQLType \<Rightarrow> string \<Rightarrow> bool" where
  "typeIncludesDirective type directiveName' \<longleftrightarrow>
     (\<exists>directive \<in> set (gatherDirectives type). directiveName directive = directiveName')"

subsection \<open>addEntitiesResolver (lines 225-278 and 664-716)\<close>

text \<open>\<open>queryFields[k] = { ...queryFields[k], resolve: r }\<close> on the field map of \<open>Query\<close>.\<close>

definition withResolve :: "string \<Rightarrow> resolver \<Rightarrow> graphQLType \<Rightarrow> graphQLType" where
  "withResolve k r type =
     type\<lparr>typeFields :=
       AList.update k
         (case map_of (typeFields type) k of
            None \<Rightarrow> \<lparr>fieldTypeRef = None, resolve = Some r\<rparr>
          | Some f \<Rightarrow> f\<lparr>resolve := Some r\<rparr>)
         (typeFields type)\<rparr>"

definition setQueryResolve :: "string \<Rightarrow> resolver \<Rightarrow> schema \<Rightarrow> thrown + schema" where
  "setQueryResolve k r s =
     (case getType s ''Query'' of
        None \<Rightarrow> Inl TypeError
      | Some q \<Rightarrow> Inr (s\<lparr>typeMap := AList.update ''Query'' (withResolve k r q) (typeMap s)\<rparr>))"

definition entityTypesOf :: "schema \<Rightarrow> graphQLType list" where
  "entityTypesOf s =
     filter (\<lambda>type. typeKind type = ObjectType \<and> typeIncludesDirective type ''key'')
       (map snd (typeMap s))"

text \<open>The document of the template on lines 233-238 and 670-676.\<close>

definition entitiesDocument :: "graphQLType list \<Rightarrow> definitionNode list" where
  "entitiesDocument entityTypes =
     [\<lparr>kind = Some UNION_TYPE_DEFINITION, name = Some ''_Entity'', directives = Some [],
       fields' = None, unionTypes = Some (map typeName entityTypes), otherProps = [''loc'']\<rparr>,
      objectNode OBJECT_TYPE_EXTENSION ''Query'' [FieldDefinition ''_entities'' ''[_Entity]!'' []]]"

text \<open>
  \<open>schema.getType('Query').getFields()\<close>: a \<open>TypeError\<close> when the schema has no type named
  \<open>Query\<close>, or one that has no field map.
\<close>

definition getQueryFields :: "schema \<Rightarrow> thrown + (string \<times> schemaField) list" where
  "getQueryFields s =
     (case getType s ''Query'' of
        None \<Rightarrow> Inl TypeError
      | Some q \<Rightarrow>
          if typeKind q \<in> {ObjectType, InterfaceType, InputObjectType} then Inr (typeFields q)
          else Inl TypeError)"

definition addEntitiesResolver1 :: "engine \<Rightarrow> schema \<Rightarrow> thrown + schema" where
  "addEntitiesResolver1 eng s =
     (let entityTypes = entityTypesOf s in
      case getQueryFields s of
        Inl e \<Rightarrow> Inl e
      | Inr queryFields \<Rightarrow>
          if entityTypes \<noteq> [] then
            (case (if map_of queryFields ''_entities'' = None
                   then (case extendSchema eng s (entitiesDocument entityTypes) AssumeValid of
                           Inl e \<Rightarrow> Inl e
                         | Inr s1 \<Rightarrow>
                             (case getQueryFields s1 of Inl e \<Rightarrow> Inl e | Inr _ \<Rightarrow> Inr s1))
                   else Inr s) of
               Inl e \<Rightarrow> Inl e
             | Inr s1 \<Rightarrow> setQueryResolve ''_entities'' EntitiesResolver1 s1)
          else Inr s)"

definition addEntitiesResolver2 :: "engine \<Rightarrow> schema \<Rightarrow> thrown + schema" where
  "addEntitiesResolver2 eng s =
     (let entityTypes = entityTypesOf s in
      if entityTypes \<noteq> [] then
        (case extendSchema eng s (entitiesDocument entityTypes) AssumeValid of
           Inl e \<Rightarrow> Inl e
         | Inr s1 \<Rightarrow>
             (case getQueryFields s1 of
                Inl e \<Rightarrow> Inl e
              | Inr _ \<Rightarrow> setQueryResolve ''_entities'' EntitiesResolver2 s1))
      else Inr s)"

subsection \<open>stripCommonPrimitives (lines 313-360)\<close>

text \<open>
  The visitor handles top-level nodes only: \<open>None\<close> is the \<open>null\<close> that deletes the node.
  Reading \<open>node.name.value\<close> throws on a node without a name, and \<open>visit\<close> throws on a
  node without a kind.
\<close>

definition typeDefinitionVisitor :: "definitionNode \<Rightarrow> thrown + definitionNode option" where
  "typeDefinitionVisitor node =
     (case name node of
        None \<Rightarrow> Inl TypeError
      | Some n \<Rightarrow>
          if n = ''Query'' then
            (case fields' node of
               None \<Rightarrow> Inr None
             | Some fs \<Rightarrow>
                 (let filteredFieldDefinitions =
                        filter (\<lambda>fieldDefinition.
                                  fieldName fieldDefinition \<notin> set [''_service'', ''_entities'']) fs
                  in if filteredFieldDefinitions = [] then Inr None
                     else Inr (Some (node\<lparr>fields' := Some filteredFieldDefinitions\<rparr>))))
          else Inr (if n = ''_Service'' then None else Some node))"

definition visitDefinition :: "definitionNode \<Rightarrow> thrown + definitionNode option" where
  "visitDefinition node =
     (case kind node of
        None \<Rightarrow> Inl (EngineError ''Invalid AST Node'')
      | Some DIRECTIVE_DEFINITION \<Rightarrow> Inr (Some node)
      | Some SCALAR_TYPE_DEFINITION \<Rightarrow>
          (case name node of
             None \<Rightarrow> Inl TypeError
           | Some n \<Rightarrow> Inr (if n \<in> set [''_Any'', ''_FieldSet''] then None else Some node))
      | Some UNION_TYPE_DEFINITION \<Rightarrow>
          (case name node of
             None \<Rightarrow> Inl TypeError
           | Some n \<Rightarrow> Inr (if n = ''_Entity'' then None else Some node))
      | Some OBJECT_TYPE_DEFINITION \<Rightarrow> typeDefinitionVisitor node
      | Some OBJECT_TYPE_EXTENSION \<Rightarrow> typeDefinitionVisitor node
      | Some _ \<Rightarrow> Inr (Some node))"

fun stripCommonPrimitives :: "definitionNode list \<Rightarrow> thrown + definitionNode list" where
  "stripCommonPrimitives [] = Inr []"
| "stripCommonPrimitives (node # document) =
     (case visitDefinition node of
        Inl e \<Rightarrow> Inl e
      | Inr visited \<Rightarrow>
          (case stripCommonPrimitives document of
             Inl e \<Rightarrow> Inl e
           | Inr rest \<Rightarrow> Inr (optionList visited @ rest)))"

subsection \<open>addServiceResolver (lines 280-311 and 718-735), getServiceSDL (lines 737-767)\<close>

definition serviceDocument :: "definitionNode list" where
  "serviceDocument =
     [objectNode OBJECT_TYPE_EXTENSION ''Query'' [FieldDefinition ''_service'' ''_Service!'' []]]"

definition addServiceResolver1 :: "engine \<Rightarrow> schema \<Rightarrow> thrown + schema" where
  "addServiceResolver1 eng s =
     (case getQueryFields s of
        Inl e \<Rightarrow> Inl e
      | Inr queryFields \<Rightarrow>
          (case (if map_of queryFields ''_service'' = None
                 then (case extendSchema eng s serviceDocument AssumeValid of
                         Inl e \<Rightarrow> Inl e
                       | Inr s1 \<Rightarrow>
                           (case getQueryFields s1 of Inl e \<Rightarrow> Inl e | Inr _ \<Rightarrow> Inr s1))
                 else Inr s) of
             Inl e \<Rightarrow> Inl e
           | Inr s1 \<Rightarrow>
               (case stripCommonPrimitives (printSchema eng s1) of
                  Inl e \<Rightarrow> Inl e
                | Inr sdl \<Rightarrow> setQueryResolve ''_service'' (ServiceResolver sdl) s1)))"

definition addServiceResolver2 :: "schema \<Rightarrow> definitionNode list \<Rightarrow> thrown + schema" where
  "addServiceResolver2 s originalSchemaSDL =
     (case getQueryFields s of
        Inl e \<Rightarrow> Inl e
      | Inr _ \<Rightarrow> setQueryResolve ''_service'' (ServiceResolver originalSchemaSDL) s)"

text \<open>
  \<open>getServiceSDL\<close> deletes the two fields from the \<open>Query\<close> type object itself, which the
  schema it was given shares: the schema comes back changed, beside the SDL. Reading
  \<open>query._fields._service\<close> throws when the configuration has no type named \<open>Query\<close>, or
  one that has no field map.
\<close>

definition getServiceSDL :: "engine \<Rightarrow> schema \<Rightarrow> thrown + (definitionNode list \<times> schema)" where
  "getServiceSDL eng s =
     (let config = toConfig s;
          config1 = config\<lparr>schemaDirectives :=
                      filter (\<lambda>d. d \<notin> set [''external'', ''requires'', ''provides'', ''key'', ''extends''])
                        (schemaDirectives config)\<rparr>;
          config2 = config1\<lparr>types :=
                      filter (\<lambda>t. typeName t \<noteq> ''_Any'' \<and> typeName t \<noteq> ''_FieldSet'') (types config1)\<rparr>
      in case find (\<lambda>t. typeName t = ''Query'') (types config2) of
           None \<Rightarrow> Inl TypeError
         | Some q \<Rightarrow>
             if typeKind q \<notin> {ObjectType, InterfaceType, InputObjectType} then Inl TypeError
             else
             (let stripped = (\<lambda>t. if typeName t = ''Query''
                                  then t\<lparr>typeFields :=
                                         AList.delete ''_entities'' (AList.delete ''_service'' (typeFields t))\<rparr>
                                  else t);
                  config3 = config2\<lparr>types := map stripped (types config2),
                                    query := map_option stripped (query config2),
                                    mutation := map_option stripped (mutation config2),
                                    subscription := map_option stripped (subscription config2)\<rparr>;
                  s1 = s\<lparr>typeMap := map (\<lambda>(n, t). (n, stripped t)) (typeMap s)\<rparr>
              in case GraphQLSchema config3 of
                   Inl e \<Rightarrow> Inl e
                 | Inr printed \<Rightarrow> Inr (printSchema eng printed, s1)))"

subsection \<open>extendFederationSchema (lines 384-488 and 769-852)\<close>

text \<open>
  The first listing, up to the call of \<open>validateSDL\<close> (lines 439-448): the schema the
  document is validated against. \<open>definitions.find(def => def.name.value === 'Query')\<close>
  throws at a node without a name that comes before the first node named \<open>Query\<close>.
\<close>

fun findQuery :: "definitionNode list \<Rightarrow> thrown + bool" where
  "findQuery [] = Inr False"
| "findQuery (def # defs) =
     (case name def of
        None \<Rightarrow> Inl TypeError
      | Some n \<Rightarrow> if n = ''Query'' then Inr True else findQuery defs)"

definition withEmptyQuery :: "schema \<Rightarrow> thrown + schema" where
  "withEmptyQuery s = GraphQLSchema ((toConfig s)\<lparr>query := Some emptyQuery\<rparr>)"

definition schemaToValidate1 :: "schema \<Rightarrow> definitionNode list \<Rightarrow> thrown + schema" where
  "schemaToValidate1 originalSchema schemaExtension =
     (if getType originalSchema ''Query'' = None then
        (case findQuery schemaExtension of
           Inl e \<Rightarrow> Inl e
         | Inr found \<Rightarrow> if found then withEmptyQuery originalSchema else Inr originalSchema)
      else Inr originalSchema)"

text \<open>The first listing after the validation (lines 465-487).\<close>

definition withRoots :: "schema \<Rightarrow> thrown + schema" where
  "withRoots s =
     GraphQLSchema ((toConfig s)\<lparr>query := getType s ''Query'', mutation := getType s ''Mutation'',
                                 subscription := getType s ''Subscription''\<rparr>)"

definition mergeValidated1 :: "engine \<Rightarrow> schema \<Rightarrow> definitionNode list \<Rightarrow> bool \<Rightarrow> thrown + schema" where
  "mergeValidated1 eng validated schemaExtension isGateway =
     (case extendSchema eng validated schemaExtension AssumeValidSDL of
        Inl e \<Rightarrow> Inl e
      | Inr s1 \<Rightarrow>
          (case (if getType s1 ''Query'' = None then withEmptyQuery s1 else Inr s1) of
             Inl e \<Rightarrow> Inl e
           | Inr s2 \<Rightarrow>
               (case (if \<not> isGateway
                      then (case addEntitiesResolver1 eng s2 of
                              Inl e \<Rightarrow> Inl e
                            | Inr s3 \<Rightarrow> addServiceResolver1 eng s3)
                      else Inr s2) of
                  Inl e \<Rightarrow> Inl e
                | Inr s4 \<Rightarrow> withRoots s4)))"

definition extendFederationSchema1 :: "engine \<Rightarrow> schema \<Rightarrow> definitionNode list \<Rightarrow> bool \<Rightarrow> thrown + schema" where
  "extendFederationSchema1 eng originalSchema schemaExtension isGateway =
     (case schemaToValidate1 originalSchema schemaExtension of
        Inl e \<Rightarrow> Inl e
      | Inr extendedSchema \<Rightarrow>
          (let errors = validateSDL eng schemaExtension extendedSchema in
           if length errors = 1 then Inl (Thrown (errors ! 0))
           else if length errors > 1 then Inl (SchemaIssues errors)
           else mergeValidated1 eng extendedSchema schemaExtension isGateway))"

text \<open>
  The second listing, up to the call of \<open>validateSDL\<close> (lines 772-817): the stubs and then
  the definitions are merged in, and the extensions are what is validated.
\<close>

definition schemaToValidate2 ::
  "engine \<Rightarrow> schema \<Rightarrow> definitionNode list \<Rightarrow> bool \<Rightarrow> thrown + (stubTypes \<times> schema)" where
  "schemaToValidate2 eng originalSchema document isGateway =
     (case getStubTypes2 document isGateway of
        Inl e \<Rightarrow> Inl e
      | Inr out \<Rightarrow>
          (case GraphQLSchema (toConfig originalSchema) of
             Inl e \<Rightarrow> Inl e
           | Inr _ \<Rightarrow>
               (case extendSchema eng originalSchema (typeStubs out) Validate of
                  Inl e \<Rightarrow> Inl e
                | Inr s1 \<Rightarrow>
                    (case extendSchema eng s1 (definitions out) Validate of
                       Inl e \<Rightarrow> Inl e
                     | Inr s2 \<Rightarrow> Inr (out, s2)))))"

text \<open>The second listing after the validation (lines 832-851).\<close>

definition mergeValidated2 :: "engine \<Rightarrow> schema \<Rightarrow> definitionNode list \<Rightarrow> bool \<Rightarrow> thrown + schema" where
  "mergeValidated2 eng validated extensionsDocument isGateway =
     (case extendSchema eng validated extensionsDocument AssumeValidSDL of
        Inl e \<Rightarrow> Inl e
      | Inr s1 \<Rightarrow>
          if \<not> isGateway then
            (case (if getType s1 ''Query'' = None then withEmptyQuery s1 else Inr s1) of
               Inl e \<Rightarrow> Inl e
             | Inr s2 \<Rightarrow>
                 (case getServiceSDL eng s2 of
                    Inl e \<Rightarrow> Inl e
                  | Inr (sdl, s3) \<Rightarrow>
                      (case addServiceResolver2 s3 sdl of
                         Inl e \<Rightarrow> Inl e
                       | Inr s4 \<Rightarrow> addEntitiesResolver2 eng s4)))
          else Inr s1)"

definition extendFederationSchema2 :: "engine \<Rightarrow> schema \<Rightarrow> definitionNode list \<Rightarrow> bool \<Rightarrow> thrown + schema" where
  "extendFederationSchema2 eng originalSchema document isGateway =
     (case schemaToValidate2 eng originalSchema document isGateway of
        Inl e \<Rightarrow> Inl e
      | Inr (out, extendedSchema) \<Rightarrow>
          (let errors = validateSDL eng (extensions out) extendedSchema in
           if length errors = 1 then Inl (Thrown (errors ! 0))
           else if length errors > 1 then Inl (SchemaIssues errors)
           else mergeValidated2 eng extendedSchema (extensions out) isGateway))"

subsection \<open>buildFederationSchema (lines 362-382 and 854-870)\<close>

definition buildFederationSchema1 :: "engine \<Rightarrow> string \<Rightarrow> bool \<Rightarrow> thrown + schema" where
  "buildFederationSchema1 eng sdl isGateway =
     (case parse eng sdl of
        Inl e \<Rightarrow> Inl e
      | Inr parsedOriginalSchema \<Rightarrow>
          (case extendSchema eng emptySchema
                  (if isGateway then BASE_FEDERATION_TYPES else FEDERATION_SCHEMA1) Validate of
             Inl e \<Rightarrow> Inl e
           | Inr federationSchema \<Rightarrow>
               extendFederationSchema1 eng federationSchema parsedOriginalSchema isGateway))"

definition buildFederationSchema2 :: "engine \<Rightarrow> string \<Rightarrow> bool \<Rightarrow> thrown + schema" where
  "buildFederationSchema2 eng sdl isGateway =
     (case extendSchema eng emptySchema
             (if isGateway then BASE_FEDERATION_TYPES else FEDERATION_SCHEMA2) Validate of
        Inl e \<Rightarrow> Inl e
      | Inr federationSchema0 \<Rightarrow>
          (case parse eng sdl of
             Inl e \<Rightarrow> Inl e
           | Inr parsedSchema \<Rightarrow>
               (case extendFederationSchema2 eng federationSchema0 parsedSchema isGateway of
                  Inl e \<Rightarrow> Inl e
                | Inr federationSchema \<Rightarrow> withRoots federationSchema)))"

subsection \<open>A reference engine\<close>

text \<open>
  Modelled from the spec: the schema engine is an external collaborator of the module
  (spec section 6: construction and extension of a schema from AST definitions, with a
  mode that skips validation, and printing). This engine is used for concrete runs only.
  Its \<open>extendSchema\<close> extends every type of the schema by the extensions of its name,
  builds a type for every type definition together with the extensions of its name,
  drops an extension whose type exists nowhere, and keeps the roots; when it validates,
  it refuses an extension of a type that exists nowhere and a definition of a type
  that exists. Its \<open>printSchema\<close> prints every type of the type map with its fields.
\<close>

definition fieldsOfNode :: "definitionNode \<Rightarrow> (string \<times> schemaField) list" where
  "fieldsOfNode node =
     map (\<lambda>f. (fieldName f, \<lparr>fieldTypeRef = Some (fieldType f), resolve = None\<rparr>))
       (case fields' node of None \<Rightarrow> [] | Some fs \<Rightarrow> fs)"

definition typeKindOf :: "kind option \<Rightarrow> typeKind" where
  "typeKindOf k =
     (case k of
        Some SCALAR_TYPE_DEFINITION \<Rightarrow> ScalarType
      | Some INTERFACE_TYPE_DEFINITION \<Rightarrow> InterfaceType
      | Some UNION_TYPE_DEFINITION \<Rightarrow> UnionType
      | Some ENUM_TYPE_DEFINITION \<Rightarrow> EnumType
      | Some INPUT_OBJECT_TYPE_DEFINITION \<Rightarrow> InputObjectType
      | _ \<Rightarrow> ObjectType)"

definition extensionsFor :: "string \<Rightarrow> definitionNode list \<Rightarrow> definitionNode list" where
  "extensionsFor n document = filter (\<lambda>d. isTypeExtensionNode d \<and> name d = Some n) document"

definition mergeFields :: "(string \<times> schemaField) list \<Rightarrow> (string \<times> schemaField) list \<Rightarrow> (string \<times> schemaField) list" where
  "mergeFields base extra = foldl (\<lambda>m kv. AList.update (fst kv) (snd kv) m) base extra"

definition extendType :: "definitionNode list \<Rightarrow> graphQLType \<Rightarrow> graphQLType" where
  "extendType exts t =
     (if exts = [] then t
      else t\<lparr>typeFields := mergeFields (typeFields t) (concat (map fieldsOfNode exts)),
             extensionASTNodes :=
               Some ((case extensionASTNodes t of None \<Rightarrow> [] | Some nodes \<Rightarrow> nodes) @ exts)\<rparr>)"

definition buildType :: "definitionNode list \<Rightarrow> string \<Rightarrow> definitionNode \<Rightarrow> graphQLType" where
  "buildType document n node =
     extendType (extensionsFor n document)
       \<lparr>typeKind = typeKindOf (kind node), typeName = n,
        typeFields = mergeFields [] (fieldsOfNode node),
        memberTypes = (case unionTypes node of None \<Rightarrow> [] | Some ms \<Rightarrow> ms),
        astNode = Some node, extensionASTNodes = None\<rparr>"

definition referenceMerge :: "schema \<Rightarrow> definitionNode list \<Rightarrow> schema" where
  "referenceMerge s document =
     s\<lparr>typeMap :=
         foldl (\<lambda>m node. case name node of
                            None \<Rightarrow> m
                          | Some n \<Rightarrow> AList.update n (buildType document n node) m)
           (map (\<lambda>(n, t). (n, extendType (extensionsFor n document) t)) (typeMap s))
           (filter isTypeDefinitionNode document),
       directiveNames :=
         directiveNames s @
         concat (map (\<lambda>node. optionList (name node))
                   (filter (\<lambda>node. kind node = Some DIRECTIVE_DEFINITION) document))\<rparr>"

definition referenceExtend :: "schema \<Rightarrow> definitionNode list \<Rightarrow> extendOptions \<Rightarrow> thrown + schema" where
  "referenceExtend s document options =
     (if options = Validate \<and>
         (\<exists>node \<in> set document. isTypeExtensionNode node \<and>
            (case name node of
               None \<Rightarrow> True
             | Some n \<Rightarrow> getType s n = None \<and>
                 \<not> (\<exists>d \<in> set document. isTypeDefinitionNode d \<and> name d = Some n)))
      then Inl (Thrown (GraphQLError ''Cannot extend type because it is not defined.''))
      else if options = Validate \<and>
         (\<exists>node \<in> set document. isTypeDefinitionNode node \<and>
            (case name node of None \<Rightarrow> True | Some n \<Rightarrow> getType s n \<noteq> None))
      then Inl (Thrown (GraphQLError ''Type already exists in the schema.''))
      else Inr (referenceMerge s document))"

definition definitionKindOf :: "typeKind \<Rightarrow> kind" where
  "definitionKindOf k =
     (case k of
        ScalarType \<Rightarrow> SCALAR_TYPE_DEFINITION
      | ObjectType \<Rightarrow> OBJECT_TYPE_DEFINITION
      | InterfaceType \<Rightarrow> INTERFACE_TYPE_DEFINITION
      | UnionType \<Rightarrow> UNION_TYPE_DEFINITION
      | EnumType \<Rightarrow> ENUM_TYPE_DEFINITION
      | InputObjectType \<Rightarrow> INPUT_OBJECT_TYPE_DEFINITION)"

definition printType :: "graphQLType \<Rightarrow> definitionNode" where
  "printType t =
     \<lparr>kind = Some (definitionKindOf (typeKind t)), name = Some (typeName t), directives = Some [],
      fields' =
        (if typeKind t \<in> {ObjectType, InterfaceType, InputObjectType}
         then Some (map (\<lambda>(k, f). FieldDefinition k
                                    (case fieldTypeRef f of None \<Rightarrow> [] | Some ty \<Rightarrow> ty) [])
                      (typeFields t))
         else None),
      unionTypes = (if typeKind t = UnionType then Some (memberTypes t) else None),
      otherProps = [''loc'']\<rparr>"

definition referencePrint :: "schema \<Rightarrow> definitionNode list" where
  "referencePrint s = map directiveDefinition (directiveNames s) @ map (\<lambda>(n, t). printType t) (typeMap s)"

definition referenceEngine :: "definitionNode list \<Rightarrow> graphQLError list \<Rightarrow> engine" where
  "referenceEngine document errors =
     \<lparr>parse = (\<lambda>sdl. Inr document), extendSchema = referenceExtend,
      validateSDL = (\<lambda>extension s. errors), printSchema = referencePrint\<rparr>"


subsection \<open>Example inputs\<close>

text \<open>
  The heap of the examples: object 0 is the representation
  \<open>{ __typename: 'User', id: 1 }\<close>, object 2 a promise that inherits \<open>then\<close> (the function
  object 3), objects 4, 5 and 6 the representations of the types \<open>Ghost\<close>, \<open>Product\<close> and
  \<open>Counter\<close>, object 7 a frozen object.
\<close>

definition plainObject0 :: jsobject where
  "plainObject0 =
     \<lparr>props = Map.empty, extensible = True, callable = False, inheritedProps = Map.empty\<rparr>"

definition exampleHeap :: heap where
  "exampleHeap r =
     (if r = 0 then
        plainObject0\<lparr>props := [''__typename'' \<mapsto> DataProperty (JString ''User'') True True True,
                                ''id'' \<mapsto> DataProperty (JNumber (Finite 1)) True True True]\<rparr>
      else if r = 1 then
        plainObject0\<lparr>props := [''name'' \<mapsto> DataProperty (JString ''Ann'') True True True]\<rparr>
      else if r = 2 then plainObject0\<lparr>inheritedProps := [''then'' \<mapsto> JObject 3]\<rparr>
      else if r = 3 then plainObject0\<lparr>callable := True\<rparr>
      else if r = 4 then
        plainObject0\<lparr>props := [''__typename'' \<mapsto> DataProperty (JString ''Ghost'') True True True]\<rparr>
      else if r = 5 then
        plainObject0\<lparr>props := [''__typename'' \<mapsto> DataProperty (JString ''Product'') True True True]\<rparr>
      else if r = 6 then
        plainObject0\<lparr>props := [''__typename'' \<mapsto> DataProperty (JString ''Counter'') True True True]\<rparr>
      else if r = 7 then plainObject0\<lparr>extensible := False\<rparr>
      else plainObject0)"

text \<open>
  The schema of the examples at resolve time: \<open>User\<close> has no reference resolver,
  the resolver of \<open>Product\<close> returns the promise, the resolver of \<open>Counter\<close> returns the
  number 5, the resolver of \<open>Account\<close> returns the object 1, and \<open>_Any\<close> is a scalar.
\<close>

definition exampleGetType :: "jsval \<Rightarrow> runtimeType option" where
  "exampleGetType v =
     (if v = JString ''User'' then Some \<lparr>isObjectType = True, resolveReference = None\<rparr>
      else if v = JString ''Product'' then
        Some \<lparr>isObjectType = True, resolveReference = Some (\<lambda>reference h. Inr (JObject 2, h))\<rparr>
      else if v = JString ''Counter'' then
        Some \<lparr>isObjectType = True,
              resolveReference = Some (\<lambda>reference h. Inr (JNumber (Finite 5), h))\<rparr>
      else if v = JString ''Account'' then
        Some \<lparr>isObjectType = True, resolveReference = Some (\<lambda>reference h. Inr (JObject 1, h))\<rparr>
      else if v = JString ''_Any'' then Some \<lparr>isObjectType = False, resolveReference = None\<rparr>
      else None)"

text \<open>
  Documents of the examples: \<open>type User @key(fields: "id") { id: ID! }\<close>,
  \<open>extend type User @key(fields: "id") { id: ID! @external }\<close>,
  \<open>extend type Product @key(fields: "sku") { sku: ID! @external  price: Int }\<close>,
  \<open>type Review @extends { body: String }\<close> and \<open>extend type Query { hello: String }\<close>.
\<close>

definition userType :: definitionNode where
  "userType =
     (objectNode OBJECT_TYPE_DEFINITION ''User'' [FieldDefinition ''id'' ''ID!'' []])
       \<lparr>directives := Some [DirectiveNode ''key'' [(''fields'', ''id'')]]\<rparr>"

definition userExtension :: definitionNode where
  "userExtension =
     (objectNode OBJECT_TYPE_EXTENSION ''User''
        [FieldDefinition ''id'' ''ID!'' [DirectiveNode ''external'' []]])
       \<lparr>directives := Some [DirectiveNode ''key'' [(''fields'', ''id'')]]\<rparr>"

definition productExtension :: definitionNode where
  "productExtension =
     (objectNode OBJECT_TYPE_EXTENSION ''Product''
        [FieldDefinition ''sku'' ''ID!'' [DirectiveNode ''external'' []],
         FieldDefinition ''price'' ''Int'' []])
       \<lparr>directives := Some [DirectiveNode ''key'' [(''fields'', ''sku'')]]\<rparr>"

definition reviewExtends :: definitionNode where
  "reviewExtends =
     (objectNode OBJECT_TYPE_DEFINITION ''Review'' [FieldDefinition ''body'' ''String'' []])
       \<lparr>directives := Some [DirectiveNode ''extends'' []]\<rparr>"

definition queryExtension :: definitionNode where
  "queryExtension = objectNode OBJECT_TYPE_EXTENSION ''Query'' [FieldDefinition ''hello'' ''String'' []]"

text \<open>The document of \<open>type Account { id: ID! }\<close>.\<close>

definition accountType :: definitionNode where
  "accountType = objectNode OBJECT_TYPE_DEFINITION ''Account'' [FieldDefinition ''id'' ''ID!'' []]"

subsection \<open>Invariants used in the proofs\<close>


subsection \<open>Notions used to state the properties of the partitioner\<close>

text \<open>
  The test of the second branch of the chain (lines 167 and 601): the node is written
  with extension syntax, or with definition syntax and tagged \<open>@extends\<close>.
\<close>

definition extensionDeclaration :: "definitionNode \<Rightarrow> bool" where
  "extensionDeclaration d \<longleftrightarrow>
     isTypeExtensionNode d \<or> (isTypeDefinitionNode d \<and> hasExtendsDirective d)"

text \<open>The node as lines 152-161 of the first listing leave it.\<close>

definition forcedRoot :: "bool \<Rightarrow> definitionNode \<Rightarrow> definitionNode" where
  "forcedRoot isGateway d =
     (if isGateway \<and> name d \<in> Some ` set rootNames
      then d\<lparr>kind := definitionKindToExtensionKind (kind d)\<rparr> else d)"

text \<open>The node as lines 173-175 and 606-608 leave it.\<close>

definition extendsRewritten :: "definitionNode \<Rightarrow> definitionNode" where
  "extendsRewritten d =
     (if hasExtendsDirective d then d\<lparr>kind := definitionKindToExtensionKind (kind d)\<rparr> else d)"

subsection \<open>Notions used to state the properties of the composition\<close>

text \<open>What the \<open>_service\<close> resolver of a schema returns under \<open>sdl\<close>.\<close>

definition serviceSDL :: "schema \<Rightarrow> definitionNode list option" where
  "serviceSDL s =
     (case getType s ''Query'' of
        None \<Rightarrow> None
      | Some q \<Rightarrow>
          (case map_of (typeFields q) ''_service'' of
             None \<Rightarrow> None
           | Some f \<Rightarrow> (case resolve f of Some (ServiceResolver sdl) \<Rightarrow> Some sdl | _ \<Rightarrow> None)))"





text \<open>
  A service schema that a caller of \<open>extendFederationSchema\<close> can build beforehand: the
  federation types and \<open>type Query { _service: _Service! }\<close> as the query root.
\<close>

definition serviceBaseSchema :: schema where
  "serviceBaseSchema =
     (referenceMerge emptySchema
        (FEDERATION_SCHEMA1 @
         [objectNode OBJECT_TYPE_DEFINITION ''Query'' [FieldDefinition ''_service'' ''_Service!'' []]]))
       \<lparr>queryType := Some ''Query''\<rparr>"



section \<open>Properties\<close>

lemma forOf_append:
  "forOf body (xs @ ys) st =
     (case forOf body xs st of Inl e \<Rightarrow> Inl e | Inr st' \<Rightarrow> forOf body ys st')"
  by (induction xs arbitrary: st) (auto split: sum.splits)

lemmas node_defs = objectNode_def userType_def userExtension_def productExtension_def
  reviewExtends_def queryExtension_def accountType_def scalarDefinition_def
  directiveDefinition_def

lemmas stub_defs = getStubTypes1_def getStubTypes2_def loopBody1_def loopBody2_def classify_def
  hasExtendsDirective_def isTypeDefinitionNode_def isTypeExtensionNode_def rootNames_def
  initialState_def setProp_def emptyObject_def stubsOf1_def stubsOf2_def truthyAt_def
  objectPrototypeProps_def extensionKindToDefinitionKind_def definitionKindToExtensionKind_def
  kindAndName_def removeExternalFields_def isExternal_def truthyProps_def

subsection \<open>The partitioner: stubs\<close>









subsection \<open>The partitioner: extensions\<close>

lemma hasExtendsDirective_kind [simp]:
  "hasExtendsDirective (d\<lparr>kind := k\<rparr>) = hasExtendsDirective d"
  by (simp add: hasExtendsDirective_def)

lemma classify_extensionsList:
  "classify gw tn (hasExtendsDirective d) d st = Inr st' \<Longrightarrow>
   extensionsList st' = extensionsList st @
     map (\<lambda>d. (extendsRewritten d)
               \<lparr>fields' := (if gw then map_option (filter (\<lambda>f. \<not> isExternal f)) (fields' d)
                            else fields' d)\<rparr>)
       (filter extensionDeclaration [d])"
  unfolding classify_def Let_def removeExternalFields_def extensionDeclaration_def
    extendsRewritten_def
  by (auto simp: isTypeDefinitionNode_def isTypeExtensionNode_def
      split: if_splits sum.splits option.splits)

lemma loopBody2_extensionsList:
  "loopBody2 gw d st = Inr st' \<Longrightarrow>
   extensionsList st' = extensionsList st @
     map (\<lambda>d. (extendsRewritten d)
               \<lparr>fields' := (if gw then map_option (filter (\<lambda>f. \<not> isExternal f)) (fields' d)
                            else fields' d)\<rparr>)
       (filter extensionDeclaration [d])"
  unfolding loopBody2_def
  by (auto split: option.splits dest!: classify_extensionsList)

lemma loopBody1_extensionsList:
  "loopBody1 gw d st = Inr st' \<Longrightarrow>
   extensionsList st' = extensionsList st @
     map (\<lambda>d. (extendsRewritten (forcedRoot gw d))
               \<lparr>fields' := (if gw then map_option (filter (\<lambda>f. \<not> isExternal f)) (fields' d)
                            else fields' d)\<rparr>)
       (filter (\<lambda>d. extensionDeclaration (forcedRoot gw d)) [d])"
proof -
  assume a: "loopBody1 gw d st = Inr st'"
  then obtain tn where tn: "name d = Some tn" by (auto simp: loopBody1_def split: option.splits)
  show ?thesis
  proof (cases "gw \<and> tn \<in> set rootNames")
    case True
    let ?d = "d\<lparr>kind := definitionKindToExtensionKind (kind d)\<rparr>"
    let ?st = "st\<lparr>extensionsMap :=
                 setProp tn (kindAndName (definitionKindToExtensionKind (kind d)) (name d))
                   (extensionsMap st)\<rparr>"
    from a tn True have "classify gw tn (hasExtendsDirective ?d) ?d ?st = Inr st'"
      by (simp add: loopBody1_def Let_def)
    from classify_extensionsList[OF this] True tn show ?thesis
      by (simp add: forcedRoot_def)
  next
    case False
    with a tn have "classify gw tn (hasExtendsDirective d) d st = Inr st'"
      by (auto simp: loopBody1_def Let_def)
    from classify_extensionsList[OF this] False tn show ?thesis
      by (auto simp: forcedRoot_def)
  qed
qed

lemma forOf_extensionsList:
  assumes step: "\<And>d st st'. body d st = Inr st' \<Longrightarrow>
                  extensionsList st' = extensionsList st @ map g (filter P [d])"
  shows "forOf body ds st = Inr st' \<Longrightarrow>
         extensionsList st' = extensionsList st @ map g (filter P ds)"
proof (induction ds arbitrary: st)
  case Nil
  then show ?case by simp
next
  case (Cons d ds)
  from Cons.prems obtain st1 where s1: "body d st = Inr st1"
    and s2: "forOf body ds st1 = Inr st'"
    by (auto split: sum.splits)
  show ?case
    using step[OF s1] Cons.IH[OF s2] by simp
qed

lemma getStubTypes2_extensions:
  "getStubTypes2 schemaDefinitions isGateway = Inr out \<Longrightarrow>
   extensions out =
     map (\<lambda>d. (extendsRewritten d)
               \<lparr>fields' := (if isGateway then map_option (filter (\<lambda>f. \<not> isExternal f)) (fields' d)
                            else fields' d)\<rparr>)
       (filter extensionDeclaration schemaDefinitions)"
proof -
  assume "getStubTypes2 schemaDefinitions isGateway = Inr out"
  then obtain st where st: "forOf (loopBody2 isGateway) schemaDefinitions initialState = Inr st"
    and out: "out = stubsOf2 st"
    by (auto simp: getStubTypes2_def split: sum.splits)
  from forOf_extensionsList[of "loopBody2 isGateway", OF loopBody2_extensionsList st]
  show ?thesis by (simp add: out stubsOf2_def initialState_def)
qed

lemma getStubTypes1_extensions:
  "getStubTypes1 schemaDefinitions isGateway = Inr out \<Longrightarrow>
   extensions out =
     map (\<lambda>d. (extendsRewritten (forcedRoot isGateway d))
               \<lparr>fields' := (if isGateway then map_option (filter (\<lambda>f. \<not> isExternal f)) (fields' d)
                            else fields' d)\<rparr>)
       (filter (\<lambda>d. extensionDeclaration (forcedRoot isGateway d)) schemaDefinitions)"
proof -
  assume "getStubTypes1 schemaDefinitions isGateway = Inr out"
  then obtain st where st: "forOf (loopBody1 isGateway) schemaDefinitions initialState = Inr st"
    and out: "out = stubsOf1 st"
    by (auto simp: getStubTypes1_def split: sum.splits)
  from forOf_extensionsList[of "loopBody1 isGateway", OF loopBody1_extensionsList st]
  show ?thesis by (simp add: out stubsOf1_def initialState_def)
qed

text \<open>
  C8: the extensions that \<open>getStubTypes\<close> collects are, in source order, the declarations
  classified as extensions; in gateway mode each carries exactly its fields without an
  \<open>@external\<close> directive, in their order, and in service mode each carries all its fields.
  In the first listing the classification looks at the node after the root types have
  been forced to extensions.
\<close>

theorem C8_external_fields_removed:
  "(getStubTypes1 schemaDefinitions isGateway = Inr out1 \<longrightarrow>
      map (\<lambda>d. (name d, fields' d)) (extensions out1) =
        map (\<lambda>d. (name d,
                   if isGateway then map_option (filter (\<lambda>f. \<not> isExternal f)) (fields' d)
                   else fields' d))
          (filter (\<lambda>d. extensionDeclaration (forcedRoot isGateway d)) schemaDefinitions)) \<and>
   (getStubTypes2 schemaDefinitions isGateway = Inr out2 \<longrightarrow>
      map (\<lambda>d. (name d, fields' d)) (extensions out2) =
        map (\<lambda>d. (name d,
                   if isGateway then map_option (filter (\<lambda>f. \<not> isExternal f)) (fields' d)
                   else fields' d))
          (filter extensionDeclaration schemaDefinitions))"
proof (intro conjI impI)
  assume "getStubTypes1 schemaDefinitions isGateway = Inr out1"
  from getStubTypes1_extensions[OF this]
  show "map (\<lambda>d. (name d, fields' d)) (extensions out1) =
        map (\<lambda>d. (name d,
                   if isGateway then map_option (filter (\<lambda>f. \<not> isExternal f)) (fields' d)
                   else fields' d))
          (filter (\<lambda>d. extensionDeclaration (forcedRoot isGateway d)) schemaDefinitions)"
    by (simp add: extendsRewritten_def forcedRoot_def comp_def)
next
  assume "getStubTypes2 schemaDefinitions isGateway = Inr out2"
  from getStubTypes2_extensions[OF this]
  show "map (\<lambda>d. (name d, fields' d)) (extensions out2) =
        map (\<lambda>d. (name d,
                   if isGateway then map_option (filter (\<lambda>f. \<not> isExternal f)) (fields' d)
                   else fields' d))
          (filter extensionDeclaration schemaDefinitions)"
    by (simp add: extendsRewritten_def comp_def)
qed

theorem C8_external_fields_removed_witness:
  "map_sum id (\<lambda>out. map (\<lambda>d. (name d, fields' d)) (extensions out))
      (getStubTypes1 [userType, productExtension, reviewExtends] True) =
     Inr [(Some ''Product'', Some [FieldDefinition ''price'' ''Int'' []]),
          (Some ''Review'', Some [FieldDefinition ''body'' ''String'' []])] \<and>
   map_sum id (\<lambda>out. map (\<lambda>d. (name d, fields' d)) (extensions out))
      (getStubTypes2 [userType, productExtension, reviewExtends] False) =
     Inr [(Some ''Product'', Some [FieldDefinition ''sku'' ''ID!'' [DirectiveNode ''external'' []],
                                   FieldDefinition ''price'' ''Int'' []]),
          (Some ''Review'', Some [FieldDefinition ''body'' ''String'' []])]"
proof -
  obtain out1 where r1: "getStubTypes1 [userType, productExtension, reviewExtends] True = Inr out1"
    by (simp add: stub_defs node_defs)
  obtain out2 where r2: "getStubTypes2 [userType, productExtension, reviewExtends] False = Inr out2"
    by (simp add: stub_defs node_defs)
  from C8_external_fields_removed[of "[userType, productExtension, reviewExtends]" True out1 out2] r1
  have e1: "map (\<lambda>d. (name d, fields' d)) (extensions out1) =
     [(Some ''Product'', Some [FieldDefinition ''price'' ''Int'' []]),
          (Some ''Review'', Some [FieldDefinition ''body'' ''String'' []])]"
    by (simp add: extensionDeclaration_def forcedRoot_def isTypeDefinitionNode_def
        isTypeExtensionNode_def hasExtendsDirective_def rootNames_def isExternal_def node_defs)
  from C8_external_fields_removed[of "[userType, productExtension, reviewExtends]" False out1 out2] r2
  have e2: "map (\<lambda>d. (name d, fields' d)) (extensions out2) =
     [(Some ''Product'', Some [FieldDefinition ''sku'' ''ID!'' [DirectiveNode ''external'' []],
                                   FieldDefinition ''price'' ''Int'' []]),
          (Some ''Review'', Some [FieldDefinition ''body'' ''String'' []])]"
    by (simp add: extensionDeclaration_def forcedRoot_def isTypeDefinitionNode_def
        isTypeExtensionNode_def hasExtendsDirective_def rootNames_def isExternal_def node_defs)
  show ?thesis using r1 r2 e1 e2 by simp
qed

subsection \<open>addTypeNameToResult\<close>

lemmas heap_defs = exampleHeap_def exampleGetType_def plainObject0_def

lemmas resolve_defs = entitiesResolve1_def entitiesResolve2_def resolveEntity_def getProperty_def
  hasProperty_def typeofFunction_def typeofObject_def addTypeNameToResult_def defineValue_def

text \<open>
  C10, as stated, fails on an object that already has an own \<open>__typename\<close> property: the
  representation \<open>{ __typename: 'User', id: 1 }\<close>, which the default reference resolver
  returns, keeps its \<open>__typename\<close> writable, enumerable and configurable.
\<close>

theorem C10_existing_typename_keeps_attributes:
  "map_sum id (\<lambda>(v, h). (v, props (h 0) ''__typename''))
     (addTypeNameToResult (JObject 0) (JString ''User'') exampleHeap) =
   Inr (JObject 0, Some (DataProperty (JString ''User'') True True True))"
  by (simp add: resolve_defs heap_defs)

text \<open>
  C10 (amended): whenever \<open>addTypeNameToResult\<close> returns, it returns the very value it
  was given. A value that is \<open>null\<close> or whose \<open>typeof\<close> is not \<open>'object'\<close> is returned with
  the heap unchanged. An extensible object without an own \<open>__typename\<close> property gains a
  non-writable, non-enumerable, non-configurable own \<open>__typename\<close> equal to the type name,
  and nothing else changes. On an object that already has an own \<open>__typename\<close> property
  the property becomes a data property holding the type name and keeps its enumerable
  and configurable attributes, and its writable attribute if it was a data property.
\<close>

theorem C10_addTypeName:
  "(addTypeNameToResult result typename h = Inr (v, h') \<longrightarrow> v = result) \<and>
   (result = JNull \<or> \<not> typeofObject h result \<longrightarrow>
      addTypeNameToResult result typename h = Inr (result, h)) \<and>
   (result = JObject r \<and> \<not> callable (h r) \<and> props (h r) ''__typename'' = None \<and>
    extensible (h r) \<longrightarrow>
      addTypeNameToResult result typename h =
        Inr (result,
             h(r := (h r)\<lparr>props := (props (h r))(''__typename'' \<mapsto>
                                        DataProperty typename False False False)\<rparr>))) \<and>
   (result = JObject r \<and> \<not> callable (h r) \<and> props (h r) ''__typename'' = Some p \<and>
    addTypeNameToResult result typename h = Inr (v, h') \<longrightarrow>
      props (h' r) ''__typename'' =
        Some (DataProperty typename
                (case p of DataProperty _ w _ _ \<Rightarrow> w | AccessorProperty _ _ _ \<Rightarrow> False)
                (enumerable p) (configurable p)))"
  apply (intro conjI impI)
     apply (auto simp: addTypeNameToResult_def typeofObject_def defineValue_def
      split: if_splits jsval.splits option.splits property.splits)
  done

theorem C10_addTypeName_witness:
  "map_sum id (\<lambda>(v, h). (v, props (h 1) ''__typename''))
     (addTypeNameToResult (JObject 1) (JString ''Account'') exampleHeap) =
   Inr (JObject 1, Some (DataProperty (JString ''Account'') False False False)) \<and>
   addTypeNameToResult (JNumber (Finite 0)) (JString ''Account'') exampleHeap =
     Inr (JNumber (Finite 0), exampleHeap) \<and>
   map_sum id (\<lambda>(v, h). (v, props (h 0) ''__typename''))
     (addTypeNameToResult (JObject 0) (JString ''Person'') exampleHeap) =
   Inr (JObject 0, Some (DataProperty (JString ''Person'') True True True))"
proof -
  have a: "JObject 1 = JObject 1 \<and> \<not> callable (exampleHeap 1) \<and>
           props (exampleHeap 1) ''__typename'' = None \<and> extensible (exampleHeap 1)"
    by (simp add: heap_defs)
  have b: "JNumber (Finite 0) = JNull \<or> \<not> typeofObject exampleHeap (JNumber (Finite 0))"
    by (simp add: typeofObject_def)
  obtain h' where run: "addTypeNameToResult (JObject 0) (JString ''Person'') exampleHeap =
      Inr (JObject 0, h')"
    by (simp add: resolve_defs heap_defs)
  have c: "JObject 0 = JObject 0 \<and> \<not> callable (exampleHeap 0) \<and>
           props (exampleHeap 0) ''__typename'' = Some (DataProperty (JString ''User'') True True True) \<and>
           addTypeNameToResult (JObject 0) (JString ''Person'') exampleHeap = Inr (JObject 0, h')"
    using run by (simp add: heap_defs)
  from C10_addTypeName[of "JObject 1" "JString ''Account''" exampleHeap "JObject 1" exampleHeap 1
      "DataProperty JNull True True True"] a
  have r1: "addTypeNameToResult (JObject 1) (JString ''Account'') exampleHeap =
        Inr (JObject 1,
             exampleHeap(1 := (exampleHeap 1)\<lparr>props := (props (exampleHeap 1))(''__typename'' \<mapsto>
                                        DataProperty (JString ''Account'') False False False)\<rparr>))"
    by blast
  from C10_addTypeName[of "JNumber (Finite 0)" "JString ''Account''" exampleHeap JNull exampleHeap 0
      "DataProperty JNull True True True"] b
  have r2: "addTypeNameToResult (JNumber (Finite 0)) (JString ''Account'') exampleHeap =
     Inr (JNumber (Finite 0), exampleHeap)"
    by blast
  from C10_addTypeName[of "JObject 0" "JString ''Person''" exampleHeap "JObject 0" h' 0
      "DataProperty (JString ''User'') True True True"] c
  have r3: "props (h' 0) ''__typename'' = Some (DataProperty (JString ''Person'') True True True)"
    by simp
  show ?thesis using r1 r2 r3 run by simp
qed

text \<open>
  On an object that is not extensible and has no own \<open>__typename\<close>,
  \<open>Object.defineProperty\<close> throws a \<open>TypeError\<close>.
\<close>

lemma addTypeNameToResult_not_extensible:
  "addTypeNameToResult (JObject 7) (JString ''User'') exampleHeap = Inl TypeError"
  by (simp add: resolve_defs heap_defs)

subsection \<open>The resolver of \<open>_entities\<close>\<close>

lemma arrayMap_append:
  "arrayMap f (xs @ ys) h =
     (case arrayMap f xs h of
        Inl e \<Rightarrow> Inl e
      | Inr (us, h1) \<Rightarrow>
          (case arrayMap f ys h1 of Inl e \<Rightarrow> Inl e | Inr (vs, h2) \<Rightarrow> Inr (us @ vs, h2)))"
  by (induction xs arbitrary: h) (auto split: sum.splits prod.splits)

lemma arrayMap_positions:
  "arrayMap f xs h = Inr (ys, h') \<Longrightarrow>
   length ys = length xs \<and>
   (\<forall>i < length xs. \<exists>hi hi'. arrayMap f (take i xs) h = Inr (take i ys, hi) \<and>
                               f (xs ! i) hi = Inr (ys ! i, hi'))"
proof (induction xs arbitrary: h ys)
  case Nil
  then show ?case by simp
next
  case (Cons x xs)
  from Cons.prems obtain y h1 zs where
    fx: "f x h = Inr (y, h1)" and rest: "arrayMap f xs h1 = Inr (zs, h')" and ys: "ys = y # zs"
    by (auto split: sum.splits prod.splits)
  from Cons.IH[OF rest] have len: "length zs = length xs"
    and pos: "\<forall>i < length xs. \<exists>hi hi'. arrayMap f (take i xs) h1 = Inr (take i zs, hi) \<and>
                               f (xs ! i) hi = Inr (zs ! i, hi')"
    by auto
  show ?case
  proof (intro conjI allI impI)
    show "length ys = length (x # xs)" using len ys by simp
  next
    fix i assume i: "i < length (x # xs)"
    show "\<exists>hi hi'. arrayMap f (take i (x # xs)) h = Inr (take i ys, hi) \<and>
                   f ((x # xs) ! i) hi = Inr (ys ! i, hi')"
    proof (cases i)
      case 0
      then show ?thesis using fx ys by simp
    next
      case (Suc j)
      with i have "j < length xs" by simp
      with pos obtain hj hj' where "arrayMap f (take j xs) h1 = Inr (take j zs, hj)"
        "f (xs ! j) hj = Inr (zs ! j, hj')" by blast
      then show ?thesis using Suc fx ys by simp
    qed
  qed
qed

lemma resolveEntity_unknown:
  "getProperty h reference ''__typename'' = Inr typename \<Longrightarrow>
   g typename = None \<or> (\<exists>t. g typename = Some t \<and> \<not> isObjectType t) \<Longrightarrow>
   resolveEntity u g reference h = Inl (u typename)"
  by (auto simp: resolveEntity_def split: option.splits)

lemma arrayMap_unknown:
  "arrayMap (resolveEntity u g) before h = Inr (results, h1) \<Longrightarrow>
   getProperty h1 reference ''__typename'' = Inr typename \<Longrightarrow>
   g typename = None \<or> (\<exists>t. g typename = Some t \<and> \<not> isObjectType t) \<Longrightarrow>
   arrayMap (resolveEntity u g) (before @ reference # rest) h = Inl (u typename)"
  by (simp add: arrayMap_append resolveEntity_unknown)

text \<open>
  C4, as stated, fails: the \<open>throw\<close> sits in the callback of \<open>representations.map\<close>, so it
  ends the whole call. With the representations of \<open>User\<close>, \<open>Ghost\<close> and \<open>Product\<close>, of which
  only \<open>Ghost\<close> is unknown, the resolver returns no array at all.
\<close>

theorem C4_unknown_type_aborts_call:
  "entitiesResolve1 exampleGetType [JObject 0, JObject 4, JObject 5] exampleHeap =
     Inl (MER_ERR_GQL_GATEWAY_INVALID_SCHEMA (JString ''Ghost''))"
  by (simp add: resolve_defs heap_defs)

text \<open>
  C4 (amended): if a representation names a type that is absent from the schema or is
  not an object type, and the representations before it resolve without throwing, the
  whole call of the \<open>_entities\<close> resolver throws the unknown-entity-type error naming
  that type; whatever representations follow, no result array is returned.
\<close>

theorem C4_unknown_type_fails_call:
  assumes "getProperty h1 reference ''__typename'' = Inr typename"
    and "g typename = None \<or> (\<exists>t. g typename = Some t \<and> \<not> isObjectType t)"
  shows "(entitiesResolve1 g before h = Inr (results, h1) \<longrightarrow>
            entitiesResolve1 g (before @ reference # rest) h =
              Inl (MER_ERR_GQL_GATEWAY_INVALID_SCHEMA typename)) \<and>
         (entitiesResolve2 g before h = Inr (results, h1) \<longrightarrow>
            entitiesResolve2 g (before @ reference # rest) h = Inl (EntityTypeNotFound typename))"
  using assms unfolding entitiesResolve1_def entitiesResolve2_def
  by (auto intro: arrayMap_unknown)

theorem C4_unknown_type_fails_call_witness:
  "entitiesResolve1 exampleGetType ([] @ JObject 4 # [JObject 0]) exampleHeap =
     Inl (MER_ERR_GQL_GATEWAY_INVALID_SCHEMA (JString ''Ghost'')) \<and>
   entitiesResolve2 exampleGetType ([] @ JObject 4 # [JObject 0]) exampleHeap =
     Inl (EntityTypeNotFound (JString ''Ghost''))"
proof -
  have a: "getProperty exampleHeap (JObject 4) ''__typename'' = Inr (JString ''Ghost'')"
    by (simp add: getProperty_def heap_defs)
  have b: "exampleGetType (JString ''Ghost'') = None \<or>
           (\<exists>t. exampleGetType (JString ''Ghost'') = Some t \<and> \<not> isObjectType t)"
    by (simp add: heap_defs)
  have c: "entitiesResolve1 exampleGetType [] exampleHeap = Inr ([], exampleHeap)"
    "entitiesResolve2 exampleGetType [] exampleHeap = Inr ([], exampleHeap)"
    by (simp_all add: entitiesResolve1_def entitiesResolve2_def)
  from C4_unknown_type_fails_call[where g = exampleGetType and ?h1.0 = exampleHeap
      and reference = "JObject 4" and typename = "JString ''Ghost''" and before = "[]"
      and h = exampleHeap and results = "[]" and rest = "[JObject 0]"] a b c
  show ?thesis by blast
qed

lemma arrayMap_total:
  "(\<forall>x \<in> set xs. \<forall>h0. \<exists>y h1. f x h0 = Inr (y, h1)) \<Longrightarrow>
   \<exists>ys h'. arrayMap f xs h = Inr (ys, h')"
proof (induction xs arbitrary: h)
  case Nil
  then show ?case by simp
next
  case (Cons x xs)
  from Cons.prems obtain y h1 where fx: "f x h = Inr (y, h1)" by fastforce
  from Cons.prems have "\<forall>x \<in> set xs. \<forall>h0. \<exists>y h1. f x h0 = Inr (y, h1)" by simp
  from Cons.IH[OF this, of h1] obtain ys h' where "arrayMap f xs h1 = Inr (ys, h')" by blast
  with fx show ?case by simp
qed

text \<open>
  C5: when the \<open>_entities\<close> resolver returns an array, the array is as long as
  \<open>representations\<close>, and its element at each position is what the callback returns for
  the representation at that position, run in the heap that the representations before
  it left: an immediate value or the \<open>then\<close> call on a deferred one. And the resolver
  does return an array when the callback throws on none of the representations.
\<close>

theorem C5_entities_positions:
  "(entitiesResolve1 g representations h = Inr (results, h') \<longrightarrow>
      length results = length representations \<and>
      (\<forall>i < length representations. \<exists>hi hi'.
          entitiesResolve1 g (take i representations) h = Inr (take i results, hi) \<and>
          resolveEntity MER_ERR_GQL_GATEWAY_INVALID_SCHEMA g (representations ! i) hi =
            Inr (results ! i, hi'))) \<and>
   (entitiesResolve2 g representations h = Inr (results, h') \<longrightarrow>
      length results = length representations \<and>
      (\<forall>i < length representations. \<exists>hi hi'.
          entitiesResolve2 g (take i representations) h = Inr (take i results, hi) \<and>
          resolveEntity EntityTypeNotFound g (representations ! i) hi = Inr (results ! i, hi'))) \<and>
   ((\<forall>reference \<in> set representations. \<forall>h0. \<exists>y h1.
        resolveEntity MER_ERR_GQL_GATEWAY_INVALID_SCHEMA g reference h0 = Inr (y, h1)) \<longrightarrow>
      (\<exists>ys h1. entitiesResolve1 g representations h = Inr (ys, h1))) \<and>
   ((\<forall>reference \<in> set representations. \<forall>h0. \<exists>y h1.
        resolveEntity EntityTypeNotFound g reference h0 = Inr (y, h1)) \<longrightarrow>
      (\<exists>ys h1. entitiesResolve2 g representations h = Inr (ys, h1)))"
  unfolding entitiesResolve1_def entitiesResolve2_def
  using arrayMap_positions[of "resolveEntity MER_ERR_GQL_GATEWAY_INVALID_SCHEMA g"]
    arrayMap_positions[of "resolveEntity EntityTypeNotFound g"]
    arrayMap_total[of representations "resolveEntity MER_ERR_GQL_GATEWAY_INVALID_SCHEMA g" h]
    arrayMap_total[of representations "resolveEntity EntityTypeNotFound g" h]
  by blast

theorem C5_entities_positions_witness:
  "map_sum id fst (entitiesResolve1 exampleGetType [JObject 0, JObject 5] exampleHeap) =
     Inr [Immediate (JObject 0), Deferred (JObject 2) (JString ''Product'')] \<and>
   map_sum id (\<lambda>p. length (fst p)) (entitiesResolve1 exampleGetType [JObject 0, JObject 5] exampleHeap) =
     Inr (length [JObject 0, JObject 5]) \<and>
   entitiesResolve2 exampleGetType [] exampleHeap = Inr ([], exampleHeap)"
proof -
  obtain h' where run: "entitiesResolve1 exampleGetType [JObject 0, JObject 5] exampleHeap =
      Inr ([Immediate (JObject 0), Deferred (JObject 2) (JString ''Product'')], h')"
    by (simp add: resolve_defs heap_defs)
  from C5_entities_positions[of exampleGetType "[JObject 0, JObject 5]" exampleHeap
      "[Immediate (JObject 0), Deferred (JObject 2) (JString ''Product'')]" h'] run
  have "length [Immediate (JObject 0), Deferred (JObject 2) (JString ''Product'')] =
        length [JObject 0, JObject 5]"
    by blast
  then show ?thesis using run by (simp add: entitiesResolve2_def)
qed

lemma resolveEntity_primitive:
  "getProperty h reference ''__typename'' = Inr typename \<Longrightarrow>
   g typename = Some type \<Longrightarrow> isObjectType type \<Longrightarrow> resolveReference type = Some f \<Longrightarrow>
   f reference h = Inr (result, h1) \<Longrightarrow> truthy result \<Longrightarrow> isPrimitive result \<Longrightarrow>
   resolveEntity u g reference h = Inl TypeError"
  by (cases result) (auto simp: resolveEntity_def hasProperty_def)

lemma resolveEntity_deferred_iff:
  "getProperty h reference ''__typename'' = Inr typename \<Longrightarrow>
   g typename = Some type \<Longrightarrow> isObjectType type \<Longrightarrow> resolveReference type = Some f \<Longrightarrow>
   f reference h = Inr (result, h1) \<Longrightarrow>
   (\<exists>d t h2. resolveEntity u g reference h = Inr (Deferred d t, h2)) \<longleftrightarrow>
   truthy result \<and> hasProperty h1 ''then'' result = Inr True \<and>
     (\<exists>v. getProperty h1 result ''then'' = Inr v \<and> typeofFunction h1 v)"
  by (cases result)
    (auto simp: resolveEntity_def hasProperty_def getProperty_def map_sum_def
      split: sum.splits option.splits)

text \<open>
  C9: the callback takes the resolver's result for a deferred value exactly when the
  result is truthy, \<open>'then' in result\<close> holds and \<open>typeof result.then\<close> is \<open>'function'\<close>; when
  a reference resolver returns a truthy primitive, \<open>'then' in result\<close> throws a
  \<open>TypeError\<close>, so the resolution fails and the primitive is not returned.
\<close>

theorem C9_truthy_primitive_throws:
  assumes "getProperty h reference ''__typename'' = Inr typename"
    and "g typename = Some type" and "isObjectType type"
    and "resolveReference type = Some f" and "f reference h = Inr (result, h1)"
  shows "((\<exists>d t h2. resolveEntity u g reference h = Inr (Deferred d t, h2)) \<longleftrightarrow>
            truthy result \<and> hasProperty h1 ''then'' result = Inr True \<and>
            (\<exists>v. getProperty h1 result ''then'' = Inr v \<and> typeofFunction h1 v)) \<and>
         (truthy result \<and> isPrimitive result \<longrightarrow>
            resolveEntity u g reference h = Inl TypeError \<and>
            entitiesResolve1 g [reference] h = Inl TypeError \<and>
            entitiesResolve2 g [reference] h = Inl TypeError)"
proof (intro conjI impI)
  show "(\<exists>d t h2. resolveEntity u g reference h = Inr (Deferred d t, h2)) \<longleftrightarrow>
            truthy result \<and> hasProperty h1 ''then'' result = Inr True \<and>
            (\<exists>v. getProperty h1 result ''then'' = Inr v \<and> typeofFunction h1 v)"
    using assms by (rule resolveEntity_deferred_iff)
next
  assume p: "truthy result \<and> isPrimitive result"
  with assms show "resolveEntity u g reference h = Inl TypeError"
    by (auto intro: resolveEntity_primitive)
  from p assms have "\<And>u. resolveEntity u g reference h = Inl TypeError"
    by (auto intro: resolveEntity_primitive)
  then show "entitiesResolve1 g [reference] h = Inl TypeError"
    "entitiesResolve2 g [reference] h = Inl TypeError"
    by (simp_all add: entitiesResolve1_def entitiesResolve2_def)
qed

theorem C9_truthy_primitive_throws_witness:
  "truthy (JNumber (Finite 5)) \<and> isPrimitive (JNumber (Finite 5)) \<and>
   entitiesResolve1 exampleGetType [JObject 6] exampleHeap = Inl TypeError \<and>
   entitiesResolve2 exampleGetType [JObject 6] exampleHeap = Inl TypeError"
proof -
  have a: "getProperty exampleHeap (JObject 6) ''__typename'' = Inr (JString ''Counter'')"
    by (simp add: getProperty_def heap_defs)
  have b: "exampleGetType (JString ''Counter'') =
      Some \<lparr>isObjectType = True,
            resolveReference = Some (\<lambda>reference h. Inr (JNumber (Finite 5), h))\<rparr>"
    by (simp add: heap_defs)
  have c: "truthy (JNumber (Finite 5)) \<and> isPrimitive (JNumber (Finite 5))" by simp
  from C9_truthy_primitive_throws[where g = exampleGetType and h = exampleHeap
      and reference = "JObject 6" and typename = "JString ''Counter''"
      and type = "\<lparr>isObjectType = True,
            resolveReference = Some (\<lambda>reference h. Inr (JNumber (Finite 5), h))\<rparr>"
      and f = "\<lambda>reference h. Inr (JNumber (Finite 5), h)"
      and result = "JNumber (Finite 5)" and ?h1.0 = exampleHeap
      and u = MER_ERR_GQL_GATEWAY_INVALID_SCHEMA] a b c
  show ?thesis by simp
qed

subsection \<open>The error policy of the validation\<close>

text \<open>
  C2: in both listings, once the schema to validate against has been built, zero errors
  from \<open>validateSDL\<close> let the composition go on with the merge, exactly one error is
  thrown as it is, and two or more errors are thrown as one error that carries the whole
  list in its order.
\<close>

theorem C2_error_policy:
  "(schemaToValidate1 originalSchema document = Inr validated1 \<longrightarrow>
      (validateSDL eng document validated1 = [] \<longrightarrow>
         extendFederationSchema1 eng originalSchema document isGateway =
           mergeValidated1 eng validated1 document isGateway) \<and>
      (\<forall>e. validateSDL eng document validated1 = [e] \<longrightarrow>
         extendFederationSchema1 eng originalSchema document isGateway = Inl (Thrown e)) \<and>
      (2 \<le> length (validateSDL eng document validated1) \<longrightarrow>
         extendFederationSchema1 eng originalSchema document isGateway =
           Inl (SchemaIssues (validateSDL eng document validated1)))) \<and>
   (schemaToValidate2 eng originalSchema document isGateway = Inr (out, validated2) \<longrightarrow>
      (validateSDL eng (extensions out) validated2 = [] \<longrightarrow>
         extendFederationSchema2 eng originalSchema document isGateway =
           mergeValidated2 eng validated2 (extensions out) isGateway) \<and>
      (\<forall>e. validateSDL eng (extensions out) validated2 = [e] \<longrightarrow>
         extendFederationSchema2 eng originalSchema document isGateway = Inl (Thrown e)) \<and>
      (2 \<le> length (validateSDL eng (extensions out) validated2) \<longrightarrow>
         extendFederationSchema2 eng originalSchema document isGateway =
           Inl (SchemaIssues (validateSDL eng (extensions out) validated2))))"
  by (simp add: extendFederationSchema1_def extendFederationSchema2_def Let_def)

lemmas engine_defs = referenceEngine_def referenceExtend_def referenceMerge_def buildType_def
  extendType_def mergeFields_def extensionsFor_def typeKindOf_def fieldsOfNode_def
  referencePrint_def printType_def definitionKindOf_def optionList_def

lemmas schema_defs = getType_def getQueryType_def rootType_def toConfig_def collectType_def
  GraphQLSchema_def emptySchema_def emptyQuery_def withEmptyQuery_def withRoots_def
  getQueryFields_def setQueryResolve_def withResolve_def entityTypesOf_def
  typeIncludesDirective_def gatherDirectives_def entitiesDocument_def serviceDocument_def

lemmas compose_defs = schemaToValidate1_def schemaToValidate2_def mergeValidated1_def
  mergeValidated2_def extendFederationSchema1_def extendFederationSchema2_def
  buildFederationSchema1_def buildFederationSchema2_def addEntitiesResolver1_def
  addEntitiesResolver2_def addServiceResolver1_def addServiceResolver2_def getServiceSDL_def
  visitDefinition_def typeDefinitionVisitor_def BASE_FEDERATION_TYPES_def
  FEDERATION_SCHEMA1_def FEDERATION_SCHEMA2_def

theorem C2_error_policy_witness:
  "extendFederationSchema1 (referenceEngine [] [GraphQLError ''first'']) emptySchema
      [accountType] True = Inl (Thrown (GraphQLError ''first'')) \<and>
   extendFederationSchema1 (referenceEngine [] [GraphQLError ''first'', GraphQLError ''second''])
      emptySchema [accountType] True =
     Inl (SchemaIssues [GraphQLError ''first'', GraphQLError ''second'']) \<and>
   extendFederationSchema1 (referenceEngine [] []) emptySchema [accountType] True =
     mergeValidated1 (referenceEngine [] []) emptySchema [accountType] True \<and>
   extendFederationSchema2 (referenceEngine [] [GraphQLError ''first'']) emptySchema
      [userExtension] False = Inl (Thrown (GraphQLError ''first''))"
proof -
  have v1: "schemaToValidate1 emptySchema [accountType] = Inr emptySchema"
    by (simp add: schemaToValidate1_def getType_def emptySchema_def node_defs)
  obtain out v2 where v2: "schemaToValidate2 (referenceEngine [] [GraphQLError ''first''])
      emptySchema [userExtension] False = Inr (out, v2)"
    by (simp add: schemaToValidate2_def stub_defs node_defs engine_defs schema_defs)
  have e0: "validateSDL (referenceEngine [] []) [accountType] emptySchema = []"
    and e1: "validateSDL (referenceEngine [] [GraphQLError ''first'']) [accountType] emptySchema =
             [GraphQLError ''first'']"
    and e2: "2 \<le> length (validateSDL (referenceEngine [] [GraphQLError ''first'', GraphQLError ''second''])
               [accountType] emptySchema)"
    and e2': "validateSDL (referenceEngine [] [GraphQLError ''first'', GraphQLError ''second''])
               [accountType] emptySchema = [GraphQLError ''first'', GraphQLError ''second'']"
    and e3: "validateSDL (referenceEngine [] [GraphQLError ''first'']) (extensions out) v2 =
             [GraphQLError ''first'']"
    by (simp_all add: referenceEngine_def)
  from C2_error_policy[of emptySchema "[accountType]" emptySchema
      "referenceEngine [] [GraphQLError ''first'']" True] v1 e1
  have r1: "extendFederationSchema1 (referenceEngine [] [GraphQLError ''first'']) emptySchema
      [accountType] True = Inl (Thrown (GraphQLError ''first''))"
    by blast
  from C2_error_policy[of emptySchema "[accountType]" emptySchema
      "referenceEngine [] [GraphQLError ''first'', GraphQLError ''second'']" True] v1 e2
  have r2: "extendFederationSchema1 (referenceEngine [] [GraphQLError ''first'', GraphQLError ''second''])
      emptySchema [accountType] True =
     Inl (SchemaIssues (validateSDL (referenceEngine [] [GraphQLError ''first'', GraphQLError ''second''])
               [accountType] emptySchema))"
    by blast
  from C2_error_policy[of emptySchema "[accountType]" emptySchema
      "referenceEngine [] []" True] v1 e0
  have r3: "extendFederationSchema1 (referenceEngine [] []) emptySchema [accountType] True =
     mergeValidated1 (referenceEngine [] []) emptySchema [accountType] True"
    by blast
  from C2_error_policy[of emptySchema "[userExtension]" emptySchema
      "referenceEngine [] [GraphQLError ''first'']" False out v2] v2 e3
  have r4: "extendFederationSchema2 (referenceEngine [] [GraphQLError ''first'']) emptySchema
      [userExtension] False = Inl (Thrown (GraphQLError ''first''))"
    by blast
  show ?thesis using r1 r2 r3 r4 e2' by simp
qed

subsection \<open>The query root\<close>

















subsection \<open>The SDL of \<open>_service\<close>\<close>

text \<open>
  The first listing strips the printed schema with \<open>stripCommonPrimitives\<close>: what it
  returns holds no \<open>_Any\<close> or \<open>_FieldSet\<close> scalar definition, no \<open>_Entity\<close> union definition,
  and a \<open>Query\<close> type only with fields other than \<open>_service\<close> and \<open>_entities\<close>, at least one.
\<close>

lemma visitDefinition_clean:
  "visitDefinition node = Inr (Some node') \<Longrightarrow>
   \<not> (kind node' = Some SCALAR_TYPE_DEFINITION \<and> name node' \<in> {Some ''_Any'', Some ''_FieldSet''}) \<and>
   \<not> (kind node' = Some UNION_TYPE_DEFINITION \<and> name node' = Some ''_Entity'') \<and>
   (kind node' \<in> {Some OBJECT_TYPE_DEFINITION, Some OBJECT_TYPE_EXTENSION} \<and>
    name node' = Some ''Query'' \<longrightarrow>
      (\<exists>fs. fields' node' = Some fs \<and> fs \<noteq> [] \<and>
            (\<forall>f \<in> set fs. fieldName f \<notin> {''_service'', ''_entities''})))"
  by (auto simp: visitDefinition_def typeDefinitionVisitor_def Let_def
      split: option.splits kind.splits if_splits)

lemma stripCommonPrimitives_clean:
  "stripCommonPrimitives document = Inr sdl \<Longrightarrow> node \<in> set sdl \<Longrightarrow>
   \<not> (kind node = Some SCALAR_TYPE_DEFINITION \<and> name node \<in> {Some ''_Any'', Some ''_FieldSet''}) \<and>
   \<not> (kind node = Some UNION_TYPE_DEFINITION \<and> name node = Some ''_Entity'') \<and>
   (kind node \<in> {Some OBJECT_TYPE_DEFINITION, Some OBJECT_TYPE_EXTENSION} \<and>
    name node = Some ''Query'' \<longrightarrow>
      (\<exists>fs. fields' node = Some fs \<and> fs \<noteq> [] \<and>
            (\<forall>f \<in> set fs. fieldName f \<notin> {''_service'', ''_entities''})))"
proof (induction document arbitrary: sdl)
  case Nil
  then show ?case by simp
next
  case (Cons d document)
  from Cons.prems(1) obtain visited rest where v: "visitDefinition d = Inr visited"
    and r: "stripCommonPrimitives document = Inr rest" and sdl: "sdl = optionList visited @ rest"
    by (auto split: sum.splits)
  from Cons.prems(2) sdl consider "visited = Some node" | "node \<in> set rest"
    by (auto simp: optionList_def split: option.splits)
  then show ?case
  proof cases
    case 1
    with v show ?thesis using visitDefinition_clean[of d node] by simp
  next
    case 2
    with Cons.IH[OF r] show ?thesis by simp
  qed
qed

lemma setQueryResolve_service:
  "setQueryResolve ''_service'' (ServiceResolver sdl) s = Inr s' \<Longrightarrow> serviceSDL s' = Some sdl"
  by (auto simp: setQueryResolve_def serviceSDL_def getType_def withResolve_def update_conv'
      split: option.splits)

lemma addServiceResolver1_sdl:
  "addServiceResolver1 eng s = Inr s' \<Longrightarrow>
   \<exists>s1 sdl. stripCommonPrimitives (printSchema eng s1) = Inr sdl \<and> serviceSDL s' = Some sdl"
proof -
  assume "addServiceResolver1 eng s = Inr s'"
  then obtain s1 sdl where "stripCommonPrimitives (printSchema eng s1) = Inr sdl"
    and "setQueryResolve ''_service'' (ServiceResolver sdl) s1 = Inr s'"
    by (auto simp: addServiceResolver1_def split: sum.splits if_splits)
  then show ?thesis using setQueryResolve_service by blast
qed

text \<open>
  C6 holds for the first listing and fails on the second: \<open>getServiceSDL\<close> (lines 737-767)
  deletes the two fields from \<open>Query\<close> and prints the type all the same. For the service
  schema whose \<open>Query\<close> has only \<open>_service\<close>, extended with
  \<open>type Account { id: ID! }\<close>, the SDL of \<open>_service\<close> holds \<open>_Service\<close> and an empty \<open>Query\<close>.
\<close>

theorem C6_second_listing_prints_empty_query:
  "map_sum id serviceSDL
     (extendFederationSchema2 (referenceEngine [] []) serviceBaseSchema [accountType] False) =
   Inr (Some
     [(objectNode OBJECT_TYPE_DEFINITION ''_Service'' [FieldDefinition ''sdl'' ''String'' []])
        \<lparr>otherProps := [''loc'']\<rparr>,
      (objectNode OBJECT_TYPE_DEFINITION ''Query'' [])\<lparr>otherProps := [''loc'']\<rparr>,
      (objectNode OBJECT_TYPE_DEFINITION ''Account'' [FieldDefinition ''id'' ''ID!'' []])
        \<lparr>otherProps := [''loc'']\<rparr>])"
  by (simp add: serviceSDL_def serviceBaseSchema_def compose_defs stub_defs node_defs engine_defs
      schema_defs)

subsection \<open>Stubs of the types declared by extension only\<close>




















subsection \<open>The merge of the stubs and the extensions\<close>



















text \<open>
  Two inputs on which \<open>getStubTypes\<close> returns no stub of a definition kind. For a type
  named as a property that a plain object inherits, \<open>!definitionsMap[name]\<close> reads the
  inherited property and the name is filtered out. For a declaration with extension
  syntax that also carries \<open>@extends\<close>, lines 603-608 record the extension kind for the
  stub and leave the declaration with no kind.
\<close>

lemma getStubTypes2_inherited_name:
  "getStubTypes2
     [objectNode OBJECT_TYPE_EXTENSION ''toString'' [FieldDefinition ''id'' ''ID!'' []]] False =
   Inr \<lparr>typeStubs = [],
        extensions =
          [objectNode OBJECT_TYPE_EXTENSION ''toString'' [FieldDefinition ''id'' ''ID!'' []]],
        definitions = []\<rparr>"
  by (simp add: stub_defs node_defs)

lemma getStubTypes2_extension_with_extends:
  "map_sum id (\<lambda>out. (map kind (typeStubs out), map kind (extensions out)))
     (getStubTypes2 [userExtension\<lparr>directives := Some [DirectiveNode ''extends'' []]\<rparr>] False) =
   Inr ([Some OBJECT_TYPE_EXTENSION], [None])"
  by (simp add: stub_defs node_defs)



subsection \<open>The reference engine merges\<close>



lemma extendType_typeName [simp]: "typeName (extendType exts t) = typeName t"
  by (simp add: extendType_def)













end
